theory Spec2Isabelle
  imports Main "HOL-Library.Char_ord" "HOL-Library.List_Lexorder" "HOL-Library.AList"
begin

section \<open>Go strings and the standard-library functions the package calls\<close>

text \<open>
  A Go \<^verbatim>\<open>string\<close> is a sequence of bytes, so it is a \<^typ>\<open>string\<close> here. The
  functions of package \<^verbatim>\<open>strings\<close> that \<^verbatim>\<open>utils.go\<close> and \<^verbatim>\<open>client.go\<close> call are
  written out as the Go documentation describes them. Every cut set and every pattern
  the package passes is ASCII, where bytes and runes coincide.
\<close>

definition HasPrefix :: "string \<Rightarrow> string \<Rightarrow> bool" where
  "HasPrefix s pre = (take (length pre) s = pre)"

definition TrimLeft :: "string \<Rightarrow> string \<Rightarrow> string" where
  "TrimLeft s cutset = dropWhile (\<lambda>c. c \<in> set cutset) s"

definition TrimRight :: "string \<Rightarrow> string \<Rightarrow> string" where
  "TrimRight s cutset = rev (dropWhile (\<lambda>c. c \<in> set cutset) (rev s))"

fun Contains :: "string \<Rightarrow> string \<Rightarrow> bool" where
  "Contains [] sub = (sub = [])"
| "Contains (c # cs) sub = (HasPrefix (c # cs) sub \<or> Contains cs sub)"

text \<open>
  \<^verbatim>\<open>strings.ReplaceAll(s, old, new)\<close> replaces the non-overlapping occurrences of
  \<^verbatim>\<open>old\<close>, found from left to right. The package only calls it with
  \<^verbatim>\<open>old = "{" + key + "}"\<close>, which is never empty; for an empty \<^verbatim>\<open>old\<close> (where Go
  inserts \<^verbatim>\<open>new\<close> around every rune) this function leaves the string alone, and
  nothing below uses it there.
\<close>

function ReplaceAll :: "string \<Rightarrow> string \<Rightarrow> string \<Rightarrow> string" where
  "ReplaceAll s old new =
     (if s = [] then []
      else if old \<noteq> [] \<and> HasPrefix s old
        then new @ ReplaceAll (drop (length old) s) old new
      else hd s # ReplaceAll (tl s) old new)"
  by pat_completeness auto
termination
  by (relation "measure (\<lambda>(s, old, new). length s)") auto

declare ReplaceAll.simps [simp del]

text \<open>
  \<^verbatim>\<open>url.QueryEscape\<close>: letters, digits and \<^verbatim>\<open>- _ . ~\<close> stay, a space becomes
  \<^verbatim>\<open>+\<close>, every other byte becomes \<^verbatim>\<open>%XX\<close> in upper-case hexadecimal.
\<close>

definition unreserved :: "char \<Rightarrow> bool" where
  "unreserved c =
     (c \<in> set ''abcdefghijklmnopqrstuvwxyzABCDEFGHIJKLMNOPQRSTUVWXYZ0123456789-_.~'')"

definition upperhex :: "nat \<Rightarrow> char" where
  "upperhex n = ''0123456789ABCDEF'' ! (n mod 16)"

definition escape_byte :: "char \<Rightarrow> string" where
  "escape_byte c =
     (if unreserved c then [c]
      else if c = CHR '' '' then ''+''
      else [CHR ''%'', upperhex (of_char c div 16), upperhex (of_char c)])"

definition QueryEscape :: "string \<Rightarrow> string" where
  "QueryEscape s = concat (map escape_byte s)"

fun Join :: "string list \<Rightarrow> string \<Rightarrow> string" where
  "Join [] sep = []"
| "Join [x] sep = x"
| "Join (x # y # ys) sep = x @ sep @ Join (y # ys) sep"

section \<open>Data model\<close>

subsection \<open>Errors\<close>

text \<open>
  An \<^verbatim>\<open>error\<close> value is either an error some collaborator produced, named by its
  message, or \<^verbatim>\<open>fmt.Errorf("<prefix>: %w", err)\<close>, which wraps \<^verbatim>\<open>err\<close> under a prefix
  and keeps it reachable through \<^verbatim>\<open>errors.Unwrap\<close>.
\<close>

datatype error = Error string | Errorf string error

fun Unwrap :: "error \<Rightarrow> error option" where
  "Unwrap (Error m) = None"
| "Unwrap (Errorf p e) = Some e"

subsection \<open>ResultState\<close>

text \<open>
  \<^verbatim>\<open>type ResultState int\<close> with the constants numbered by \<^verbatim>\<open>iota\<close>. A field of this
  type that is never assigned holds the zero value \<open>0\<close>.
\<close>

type_synonym ResultState = int

definition SuccessState :: ResultState where "SuccessState = 0"
definition ErrorState :: ResultState where "ErrorState = 1"
definition UnknownState :: ResultState where "UnknownState = 2"

subsection \<open>Multi-valued maps: \<^verbatim>\<open>http.Header\<close> and \<^verbatim>\<open>url.Values\<close>\<close>

text \<open>
  Both are \<^verbatim>\<open>map[string][]string\<close>. A map is an association list with distinct keys;
  the order of the list is the order in which a \<^verbatim>\<open>range\<close> loop happens to visit the
  keys, which Go leaves unspecified, so a statement about all lists covers every order.
\<close>

type_synonym Values = "(string \<times> string list) list"
type_synonym Header = "(string \<times> string list) list"

definition is_map :: "('k \<times> 'v) list \<Rightarrow> bool" where
  "is_map m = distinct (map fst m)"

definition index :: "(string \<times> string list) list \<Rightarrow> string \<Rightarrow> string list" where
  \<comment> \<open>\<^verbatim>\<open>v[key]\<close>: the nil slice when the key is absent\<close>
  "index v key = (case map_of v key of None \<Rightarrow> [] | Some xs \<Rightarrow> xs)"

definition Values_Add :: "Values \<Rightarrow> string \<Rightarrow> string \<Rightarrow> Values" where
  \<comment> \<open>\<^verbatim>\<open>v[key] = append(v[key], value)\<close>\<close>
  "Values_Add v key val = AList.update key (index v key @ [val]) v"

definition Values_Set :: "Values \<Rightarrow> string \<Rightarrow> string \<Rightarrow> Values" where
  \<comment> \<open>\<^verbatim>\<open>v[key] = []string{value}\<close>\<close>
  "Values_Set v key val = AList.update key [val] v"

definition Values_Encode :: "Values \<Rightarrow> string" where
  \<comment> \<open>keys sorted, each value of a key written as \<^verbatim>\<open>key=value\<close>, joined by \<^verbatim>\<open>&\<close>\<close>
  "Values_Encode v =
     Join (concat (map (\<lambda>k. map (\<lambda>x. QueryEscape k @ ''='' @ QueryEscape x) (index v k))
                       (sort (remdups (map fst v))))) ''&''"

definition add_each :: "Values \<Rightarrow> Values \<Rightarrow> Values" where
  \<comment> \<open>\<^verbatim>\<open>for k, values := range src { for _, v := range values { q.Add(k, v) } }\<close>\<close>
  "add_each q src = fold (\<lambda>(k, vals) q'. fold (\<lambda>x q''. Values_Add q'' k x) vals q') src q"

text \<open>
  \<^verbatim>\<open>textproto.CanonicalMIMEHeaderKey\<close>, which \<^verbatim>\<open>Header.Add\<close>, \<^verbatim>\<open>Header.Set\<close> and
  \<^verbatim>\<open>Header.Get\<close> apply to their key: a key made of header-field bytes only gets an
  upper-case first letter and an upper-case letter after each dash, every other letter
  in lower case; any other key is returned as it is.
\<close>

definition validHeaderFieldByte :: "char \<Rightarrow> bool" where
  "validHeaderFieldByte c =
     (c \<in> set ''abcdefghijklmnopqrstuvwxyzABCDEFGHIJKLMNOPQRSTUVWXYZ0123456789!#$%&*+-.^_`|~''
      \<or> c = CHR 0x27)"

definition isLower :: "char \<Rightarrow> bool" where
  "isLower c = (CHR ''a'' \<le> c \<and> c \<le> CHR ''z'')"

definition isUpper :: "char \<Rightarrow> bool" where
  "isUpper c = (CHR ''A'' \<le> c \<and> c \<le> CHR ''Z'')"

fun canonical_from :: "bool \<Rightarrow> string \<Rightarrow> string" where
  "canonical_from upper [] = []"
| "canonical_from upper (c # cs) =
     (let c' = (if upper \<and> isLower c then char_of (of_char c - (32::nat))
                else if \<not> upper \<and> isUpper c then char_of (of_char c + (32::nat))
                else c)
      in c' # canonical_from (c' = CHR ''-'') cs)"

definition CanonicalMIMEHeaderKey :: "string \<Rightarrow> string" where
  "CanonicalMIMEHeaderKey s =
     (if list_all validHeaderFieldByte s then canonical_from True s else s)"

definition Header_Add :: "Header \<Rightarrow> string \<Rightarrow> string \<Rightarrow> Header" where
  "Header_Add h key val = Values_Add h (CanonicalMIMEHeaderKey key) val"

definition Header_Set :: "Header \<Rightarrow> string \<Rightarrow> string \<Rightarrow> Header" where
  "Header_Set h key val = Values_Set h (CanonicalMIMEHeaderKey key) val"

definition Header_Get :: "Header \<Rightarrow> string \<Rightarrow> string" where
  \<comment> \<open>the first value of the key, the empty string when there is none\<close>
  "Header_Get h key =
     (case index h (CanonicalMIMEHeaderKey key) of [] \<Rightarrow> [] | x # _ \<Rightarrow> x)"

definition header_add_each :: "Header \<Rightarrow> Header \<Rightarrow> Header" where
  \<comment> \<open>\<^verbatim>\<open>for k, values := range src { for _, v := range values { h.Add(k, v) } }\<close>\<close>
  "header_add_each h src =
     fold (\<lambda>(k, vals) h'. fold (\<lambda>x h''. Header_Add h'' k x) vals h') src h"

subsection \<open>Request (\<^verbatim>\<open>request.go\<close>)\<close>

text \<open>
  The field \<^verbatim>\<open>body interface{}\<close> is read by \<^verbatim>\<open>prepareRequest\<close> through its dynamic
  type: a byte slice, a string, an \<^verbatim>\<open>io.Reader\<close> (a handle to a stream), or any other
  value (a handle), which only a marshaller can encode. Pointers to objects the package
  never looks into (the context, decode targets, callbacks, the tracer, the client a
  request is bound to) are handles of type \<^typ>\<open>nat\<close>; a nil pointer or nil interface
  is \<^const>\<open>None\<close>.
\<close>

datatype payload = Bytes string | String string | Reader nat | Other nat

record Cookie =
  Name :: string
  Value :: string

record basicAuth =
  username :: string
  password :: string

record Request =
  client :: nat
  "method" :: string
  url :: string
  ctx :: "nat option"
  headers :: Header
  queryParams :: Values
  pathParams :: "(string \<times> string) list"
  formData :: Values
  body :: "payload option"
  bodyType :: string
  cookies :: "Cookie list"
  userAgent :: string
  basicAuth :: basicAuth
  bearerToken :: string
  successResult :: "nat option"
  errorResult :: "nat option"
  downloadPath :: string
  uploadCallback :: "nat option"
  tracer :: "nat option"
  spanName :: string

subsection \<open>What travels on the wire (\<^verbatim>\<open>net/http\<close>, \<^verbatim>\<open>net/url\<close>)\<close>

record URL =
  Scheme :: string
  Host :: string
  Path :: string
  RawQuery :: string
  Fragment :: string

datatype wire_body = NoBody | BodyBytes string | BodyStream nat

record http_Request =
  Method :: string
  URL :: string
  Header :: Header
  Body :: wire_body
  Context :: "nat option"

text \<open>
  The body of an \<^verbatim>\<open>http.Response\<close> is a stream; what \<^verbatim>\<open>io.ReadAll\<close> will get from
  it is carried with the response: the bytes, or the error the read ends with. A nil
  \<^verbatim>\<open>Body\<close> is \<^const>\<open>None\<close>.
\<close>

record http_Response =
  Status :: string
  StatusCode :: int
  Proto :: string
  ProtoMajor :: int
  ProtoMinor :: int
  Header :: Header
  Body :: "(error + string) option"

text \<open>
  \<^verbatim>\<open>http.Client.Do\<close> returns a response and no error, or an error, together with a
  response only when a redirect policy failed.
\<close>

datatype do_result = DoOk http_Response | DoErr error "http_Response option"

subsection \<open>Response (\<^verbatim>\<open>response.go\<close>)\<close>

text \<open>
  The field \<^verbatim>\<open>Request *Request\<close> of a response is a pointer. \<^verbatim>\<open>execute\<close> stores the
  pointer to the request of the call in it; a function that gets the response may store
  another pointer (a handle) or nil.
\<close>

datatype request_ptr = NilRequest | CallRequest | OtherRequest nat

record Response =
  Request :: request_ptr
  Response :: "http_Response option"
  body :: string
  size' :: int
  receivedAt :: int
  duration :: int
  state :: ResultState
  Err :: "error option"
  Status :: string
  StatusCode :: int
  Proto :: string
  ProtoMajor :: int
  ProtoMinor :: int
  Header :: Header


definition IsError :: "Response \<Rightarrow> bool" where
  "IsError r = (state r = ErrorState)"


subsection \<open>Client (\<^verbatim>\<open>client.go\<close>)\<close>

text \<open>
  The outside world (the network, the clock, whatever the caller's functions keep) is a
  state of type \<open>'w\<close>. The caller's functions stored on the client take it and return
  it changed. A before-request middleware gets the request through a pointer and may
  change it, so it returns it. An after-response middleware, the retry condition, the
  result checker and the error hook get the response through a pointer, and through the
  field \<^verbatim>\<open>Request\<close> of the response the request of the call: they may change both, and
  they may assign a whole \<^verbatim>\<open>Response\<close> through the pointer, unexported fields included.
  So each of them takes the request and the response and returns them as it leaves them.
  The client itself is not changed during a call.
\<close>

type_synonym 'w RequestMiddleware = "Request \<Rightarrow> 'w \<Rightarrow> error option \<times> Request \<times> 'w"
type_synonym 'w ResponseMiddleware =
  "Request \<Rightarrow> Response \<Rightarrow> 'w \<Rightarrow> error option \<times> Request \<times> Response \<times> 'w"
type_synonym 'w RetryConditionFunc =
  "Request \<Rightarrow> Response \<Rightarrow> error option \<Rightarrow> 'w \<Rightarrow> bool \<times> Request \<times> Response \<times> 'w"
type_synonym 'w ErrorHook =
  "Request \<Rightarrow> Response \<Rightarrow> error \<Rightarrow> 'w \<Rightarrow> Request \<times> Response \<times> 'w"
type_synonym 'w ResultChecker =
  "Request \<Rightarrow> Response \<Rightarrow> 'w \<Rightarrow> ResultState \<times> Request \<times> Response \<times> 'w"

record 'w Client =
  httpClient :: "http_Request \<Rightarrow> 'w \<Rightarrow> do_result \<times> 'w"
  baseURL :: string
  timeout :: int
  headers :: Header
  queryParams :: Values
  pathParams :: "(string \<times> string) list"
  formData :: Values
  cookies :: "Cookie list"
  userAgent :: string
  beforeRequest :: "'w RequestMiddleware list"
  afterResponse :: "'w ResponseMiddleware list"
  jsonMarshal :: "payload \<Rightarrow> error + string"
  jsonUnmarshal :: "string \<Rightarrow> nat \<Rightarrow> 'w \<Rightarrow> error option \<times> 'w"
  xmlMarshal :: "payload \<Rightarrow> error + string"
  xmlUnmarshal :: "string \<Rightarrow> nat \<Rightarrow> 'w \<Rightarrow> error option \<times> 'w"
  debug :: bool
  allowGetPayload :: bool
  retryCount :: int
  retryInterval :: int
  retryCondition :: "'w RetryConditionFunc option"
  errorHandler :: "'w ErrorHook option"
  onError :: "'w ErrorHook option"
  commonErrorResult :: "nat option"
  resultChecker :: "'w ResultChecker"

text \<open>
  The part of the Go runtime and standard library that the package relies on and that is
  not written out above: URL parsing and printing, the order in which \<^verbatim>\<open>range\<close> visits
  the keys of the merged path-parameter map, the validation done by
  \<^verbatim>\<open>http.NewRequestWithContext\<close>, the encoding of credentials and cookies, and the clock.
\<close>

record 'w Env =
  Parse :: "string \<Rightarrow> error + URL"
  ParseQuery :: "string \<Rightarrow> Values"
  URL_String :: "URL \<Rightarrow> string"
  rangeKeys :: "(string \<rightharpoonup> string) \<Rightarrow> string list"
  newRequestError :: "nat option \<Rightarrow> string \<Rightarrow> string \<Rightarrow> error option"
  basicAuthValue :: "string \<Rightarrow> string \<Rightarrow> string"
  cookieString :: "Cookie \<Rightarrow> string"
  now :: "'w \<Rightarrow> int"

section \<open>\<^verbatim>\<open>utils.go\<close>\<close>

text \<open>
  \<^verbatim>\<open>defaultResultChecker\<close> only reads the status code. Stored on a client, it is a
  result checker that leaves the request, the response and the world as they are.
\<close>

definition defaultResultChecker :: "Response \<Rightarrow> ResultState" where
  "defaultResultChecker resp =
     (if Response.StatusCode resp \<ge> 200 \<and> Response.StatusCode resp < 300 then SuccessState
      else if Response.StatusCode resp \<ge> 400 then ErrorState
      else UnknownState)"

definition reading :: "(Response \<Rightarrow> ResultState) \<Rightarrow> 'w ResultChecker" where
  "reading checker req resp x = (checker resp, req, resp, x)"

text \<open>
  \<^verbatim>\<open>buildURL\<close>, lines 21 to 40: the base URL is put in front of a relative URL, the
  client's path parameters are copied into a fresh map, the request's are written over
  them, and for each key of that map, in the order \<^verbatim>\<open>range\<close> yields them, every
  \<^verbatim>\<open>{key}\<close> in the string is replaced by the value.
\<close>

definition withBaseURL :: "'w Client \<Rightarrow> string \<Rightarrow> string" where
  "withBaseURL c rawURL =
     (if \<not> HasPrefix rawURL ''http'' \<and> baseURL c \<noteq> []
      then baseURL c @ ''/'' @ TrimLeft rawURL ''/''
      else rawURL)"

definition allPathParams :: "'w Client \<Rightarrow> (string \<times> string) list \<Rightarrow> (string \<rightharpoonup> string)" where
  "allPathParams c reqPathParams =
     fold (\<lambda>(k, v) m. m(k \<mapsto> v)) reqPathParams
       (fold (\<lambda>(k, v) m. m(k \<mapsto> v)) (Client.pathParams c) Map.empty)"

definition replacePathParams :: "(string \<rightharpoonup> string) \<Rightarrow> string list \<Rightarrow> string \<Rightarrow> string" where
  "replacePathParams m keys finalURL =
     fold (\<lambda>key u. case m key of None \<Rightarrow> u
                    | Some value \<Rightarrow> ReplaceAll u (''{'' @ key @ ''}'') value)
          keys finalURL"

definition substitutePathParams ::
  "'w Env \<Rightarrow> 'w Client \<Rightarrow> string \<Rightarrow> (string \<times> string) list \<Rightarrow> string" where
  "substitutePathParams E c rawURL reqPathParams =
     (let m = allPathParams c reqPathParams
      in replacePathParams m (rangeKeys E m) (withBaseURL c rawURL))"

text \<open>
  \<^verbatim>\<open>buildURL\<close>, lines 42 to 61: the string is parsed, the query of the parsed URL is
  taken, every client value and then every request value is added to it, and the
  encoded result becomes the URL's query.
\<close>

definition mergeQuery :: "Values \<Rightarrow> Values \<Rightarrow> Values \<Rightarrow> Values" where
  "mergeQuery q clientParams reqParams = add_each (add_each q clientParams) reqParams"

definition buildURL ::
  "'w Env \<Rightarrow> 'w Client \<Rightarrow> string \<Rightarrow> (string \<times> string) list \<Rightarrow> Values \<Rightarrow> error + URL" where
  "buildURL E c rawURL reqPathParams reqQueryParams =
     (case Parse E (substitutePathParams E c rawURL reqPathParams) of
        Inl err \<Rightarrow> Inl err
      | Inr u \<Rightarrow>
          Inr (u\<lparr>RawQuery :=
                 Values_Encode (mergeQuery (ParseQuery E (RawQuery u))
                                           (Client.queryParams c) reqQueryParams)\<rparr>))"

definition shouldRetry ::
  "'w Client \<Rightarrow> Request \<Rightarrow> Response \<Rightarrow> error option \<Rightarrow> 'w
     \<Rightarrow> bool \<times> Request \<times> Response \<times> 'w" where
  "shouldRetry c req resp err x =
     (case retryCondition c of
        Some condition \<Rightarrow> condition req resp err x
      | None \<Rightarrow>
          (if err \<noteq> None then True
           else if Response.StatusCode resp \<ge> 500 \<or> Response.StatusCode resp = 429 then True
           else False,
           req, resp, x))"

definition unmarshalResponse ::
  "'w Client \<Rightarrow> Response \<Rightarrow> nat \<Rightarrow> 'w \<Rightarrow> error option \<times> 'w" where
  "unmarshalResponse c resp v w =
     (if length (body resp) = 0 then (None, w)
      else
        let contentType = Header_Get (Response.Header resp) ''Content-Type''
        in if Contains contentType ''application/json'' then jsonUnmarshal c (body resp) v w
           else if Contains contentType ''application/xml'' \<or> Contains contentType ''text/xml''
             then xmlUnmarshal c (body resp) v w
           else jsonUnmarshal c (body resp) v w)"

section \<open>\<^verbatim>\<open>client.go\<close>: preparing the wire request\<close>

definition Http :: "nat \<Rightarrow> Request" where
  \<comment> \<open>\<^verbatim>\<open>c.Http()\<close>, for the client with the given handle: empty containers, background context\<close>
  "Http c =
     \<lparr>client = c, method = [], url = [], ctx = Some 0, headers = [], queryParams = [],
      pathParams = [], formData = [], body = None, bodyType = [], cookies = [],
      userAgent = [], basicAuth = \<lparr>username = [], password = []\<rparr>, bearerToken = [],
      successResult = None, errorResult = None, downloadPath = [], uploadCallback = None,
      tracer = None, spanName = []\<rparr>"

definition prepareBody :: "'w Client \<Rightarrow> Request \<Rightarrow> error + (wire_body \<times> string)" where
  \<comment> \<open>the body reader and the content type it suggests (lines 575 to 615)\<close>
  "prepareBody c req =
     (case Request.body req of
        Some b \<Rightarrow>
          if bodyType req = ''json'' then
            (case jsonMarshal c b of
               Inl err \<Rightarrow> Inl (Errorf ''failed to marshal JSON'' err)
             | Inr jsonData \<Rightarrow> Inr (BodyBytes jsonData, ''application/json''))
          else if bodyType req = ''xml'' then
            (case xmlMarshal c b of
               Inl err \<Rightarrow> Inl (Errorf ''failed to marshal XML'' err)
             | Inr xmlData \<Rightarrow> Inr (BodyBytes xmlData, ''application/xml''))
          else
            (case b of
               Bytes d \<Rightarrow> Inr (BodyBytes d, [])
             | String s \<Rightarrow> Inr (BodyBytes s, [])
             | Reader r \<Rightarrow> Inr (BodyStream r, [])
             | Other _ \<Rightarrow> Inr (NoBody, []))
      | None \<Rightarrow>
          if length (Request.formData req) > 0 \<or> length (Client.formData c) > 0 then
            Inr (BodyBytes (Values_Encode
                   (add_each (add_each [] (Client.formData c)) (Request.formData req))),
                 ''application/x-www-form-urlencoded'')
          else Inr (NoBody, []))"

definition AddCookie :: "'w Env \<Rightarrow> Cookie \<Rightarrow> Header \<Rightarrow> Header" where
  \<comment> \<open>\<^verbatim>\<open>http.Request.AddCookie\<close>: cookies share one \<^verbatim>\<open>Cookie\<close> header, separated by \<^verbatim>\<open>; \<close>\<close>
  "AddCookie E ck h =
     (if Header_Get h ''Cookie'' \<noteq> []
      then Header_Set h ''Cookie'' (Header_Get h ''Cookie'' @ ''; '' @ cookieString E ck)
      else Header_Set h ''Cookie'' (cookieString E ck))"

definition resolveHeaders :: "'w Env \<Rightarrow> 'w Client \<Rightarrow> Request \<Rightarrow> string \<Rightarrow> Header" where
  \<comment> \<open>the header of the wire request (lines 623 to 673)\<close>
  "resolveHeaders E c req contentType =
     (let h0 = header_add_each (header_add_each [] (Client.headers c)) (Request.headers req);
          h1 = (if Header_Get h0 ''User-Agent'' = [] then
                  Header_Set h0 ''User-Agent''
                    (if Request.userAgent req \<noteq> [] then Request.userAgent req
                     else if Client.userAgent c \<noteq> [] then Client.userAgent c
                     else ''Go-http-client/1.1'')
                else h0);
          h2 = (if Header_Get h1 ''Content-Type'' = []
                then Header_Set h1 ''Content-Type'' contentType else h1);
          h3 = (if username (basicAuth req) \<noteq> [] then
                  Header_Set h2 ''Authorization''
                    (''Basic '' @ basicAuthValue E (username (basicAuth req))
                                                  (password (basicAuth req)))
                else h2);
          h4 = (if bearerToken req \<noteq> []
                then Header_Set h3 ''Authorization'' (''Bearer '' @ bearerToken req) else h3);
          h5 = fold (AddCookie E) (Client.cookies c) h4
      in fold (AddCookie E) (Request.cookies req) h5)"

definition prepareRequest :: "'w Env \<Rightarrow> 'w Client \<Rightarrow> Request \<Rightarrow> error + http_Request" where
  "prepareRequest E c req =
     (case buildURL E c (url req) (Request.pathParams req) (Request.queryParams req) of
        Inl err \<Rightarrow> Inl (Errorf ''failed to build URL'' err)
      | Inr u \<Rightarrow>
          (case prepareBody c req of
             Inl err \<Rightarrow> Inl err
           | Inr (b, contentType) \<Rightarrow>
               (case newRequestError E (ctx req) (method req) (URL_String E u) of
                  Some err \<Rightarrow> Inl (Errorf ''failed to create HTTP request'' err)
                | None \<Rightarrow>
                    Inr \<lparr>Method = (if method req = [] then ''GET'' else method req),
                         URL = URL_String E u,
                         Header = resolveHeaders E c req contentType,
                         Body = b,
                         Context = ctx req\<rparr>)))"

section \<open>\<^verbatim>\<open>client.go\<close>: \<^verbatim>\<open>execute\<close>\<close>

text \<open>
  The calls \<^verbatim>\<open>execute\<close> makes to the outside are recorded, in order, in a trace kept
  beside the world: the start of each pass through the retry loop, each hook called, each
  request handed to the transport, each call of the classifier and of the error hook, each
  \<^verbatim>\<open>time.Sleep\<close> with its duration, and the debug output. The trace is only written,
  never read, so it has no influence on what \<^verbatim>\<open>execute\<close> computes.
\<close>

datatype event =
    Attempt int | DebugRequest | BeforeHook nat | Send | AfterHook nat | Classify
  | DebugResponse | DebugRetry | Sleep int | ErrorHookCall

record 'w World =
  trace :: "event list"
  ext :: 'w

definition emit :: "event \<Rightarrow> 'w World \<Rightarrow> 'w World" where
  "emit e w = w\<lparr>trace := trace w @ [e]\<rparr>"

text \<open>Go's \<^verbatim>\<open>int\<close> on a 64-bit platform: the sum \<^verbatim>\<open>c.retryCount + 1\<close> wraps around.\<close>

definition int64 :: "int \<Rightarrow> int" where
  "int64 x = (x + 2 ^ 63) mod 2 ^ 64 - 2 ^ 63"

text \<open>
  How one pass through the body of the retry loop ends: with a \<^verbatim>\<open>return\<close>, with a
  \<^verbatim>\<open>continue\<close> of the retry loop, or with a \<^verbatim>\<open>break\<close> out of it. The last two carry
  the variables \<^verbatim>\<open>lastErr\<close> and \<^verbatim>\<open>resp\<close> and the request as the caller's functions
  left it.
\<close>

datatype 'w flow =
    Return "Response option" "error option" (flowWorld: "'w World")
  | Continue "error option" Response Request (flowWorld: "'w World")
  | Break "error option" Response Request (flowWorld: "'w World")

fun runBefore ::
  "'w RequestMiddleware list \<Rightarrow> nat \<Rightarrow> Request \<Rightarrow> 'w World
     \<Rightarrow> error option \<times> Request \<times> 'w World" where
  "runBefore [] i req w = (None, req, w)"
| "runBefore (mw # mws) i req w =
     (case mw req (ext w) of
        (Some err, req', x) \<Rightarrow> (Some err, req', emit (BeforeHook i) (w\<lparr>ext := x\<rparr>))
      | (None, req', x) \<Rightarrow> runBefore mws (Suc i) req' (emit (BeforeHook i) (w\<lparr>ext := x\<rparr>)))"

definition newResponse :: "http_Response option \<Rightarrow> int \<Rightarrow> int \<Rightarrow> Response" where
  \<comment> \<open>\<^verbatim>\<open>&Response{Request: req, Response: httpResp, receivedAt: ..., duration: ...}\<close>:
      every other field has its zero value\<close>
  "newResponse httpResp t d =
     \<lparr>Request = CallRequest, Response = httpResp, body = [], size' = 0, receivedAt = t,
      duration = d, state = 0, Err = None, Status = [], StatusCode = 0, Proto = [],
      ProtoMajor = 0, ProtoMinor = 0, Header = []\<rparr>"

definition copyStatus :: "Response \<Rightarrow> http_Response \<Rightarrow> Response" where
  "copyStatus resp httpResp =
     resp\<lparr>Response.StatusCode := http_Response.StatusCode httpResp,
          Response.Status := http_Response.Status httpResp,
          Response.Proto := http_Response.Proto httpResp,
          Response.ProtoMajor := http_Response.ProtoMajor httpResp,
          Response.ProtoMinor := http_Response.ProtoMinor httpResp,
          Response.Header := http_Response.Header httpResp\<rparr>"

text \<open>
  The test \<^verbatim>\<open>attempt < maxAttempts-1 && c.shouldRetry(resp, err)\<close>: the retry condition
  is called only when the budget has an attempt left.
\<close>

definition mayRetry ::
  "'w Client \<Rightarrow> int \<Rightarrow> int \<Rightarrow> Request \<Rightarrow> Response \<Rightarrow> error option \<Rightarrow> 'w
     \<Rightarrow> bool \<times> Request \<times> Response \<times> 'w" where
  "mayRetry c maxAttempts attempt req resp err x =
     (if attempt < maxAttempts - 1 then shouldRetry c req resp err x
      else (False, req, resp, x))"

text \<open>
  \<^verbatim>\<open>if attempt < maxAttempts-1 && c.shouldRetry(resp, err) { time.Sleep(c.retryInterval); continue }; break\<close>
  directly in the body of the retry loop (lines 721 to 725 and 735 to 739).
\<close>

definition retryOrBreak ::
  "'w Client \<Rightarrow> int \<Rightarrow> int \<Rightarrow> error option \<Rightarrow> Request \<Rightarrow> Response \<Rightarrow> error option \<Rightarrow> 'w World
     \<Rightarrow> 'w flow" where
  "retryOrBreak c maxAttempts attempt lastErr req resp err w =
     (case mayRetry c maxAttempts attempt req resp err (ext w) of
        (retry, req', resp', x) \<Rightarrow>
          if retry
          then Continue lastErr resp' req' (emit (Sleep (retryInterval c)) (w\<lparr>ext := x\<rparr>))
          else Break lastErr resp' req' (w\<lparr>ext := x\<rparr>))"

text \<open>
  The loop over the after-response middlewares (lines 756 to 766). It is the innermost
  loop around its \<^verbatim>\<open>continue\<close> and \<^verbatim>\<open>break\<close>, so \<^verbatim>\<open>continue\<close> goes on with the
  next middleware and \<^verbatim>\<open>break\<close> leaves the middleware loop; in both cases \<^verbatim>\<open>execute\<close>
  goes on after the loop.
\<close>

fun runAfter ::
  "'w Client \<Rightarrow> int \<Rightarrow> int \<Rightarrow> 'w ResponseMiddleware list \<Rightarrow> nat \<Rightarrow> error option
     \<Rightarrow> Request \<Rightarrow> Response \<Rightarrow> 'w World
     \<Rightarrow> error option \<times> Request \<times> Response \<times> 'w World" where
  "runAfter c maxAttempts attempt [] i lastErr req resp w = (lastErr, req, resp, w)"
| "runAfter c maxAttempts attempt (mw # mws) i lastErr req resp w =
     (case mw req resp (ext w) of
        (None, req', resp', x) \<Rightarrow>
          runAfter c maxAttempts attempt mws (Suc i) lastErr req' resp'
            (emit (AfterHook i) (w\<lparr>ext := x\<rparr>))
      | (Some err, req', resp', x) \<Rightarrow>
          let resp1 = resp'\<lparr>Err := Some (Errorf ''after response middleware error'' err)\<rparr>;
              w1 = emit (AfterHook i) (w\<lparr>ext := x\<rparr>)
          in (case mayRetry c maxAttempts attempt req' resp1 (Err resp1) (ext w1) of
                (retry, req2, resp2, y) \<Rightarrow>
                  if retry
                  then runAfter c maxAttempts attempt mws (Suc i) (Err resp1) req2 resp2
                         (emit (Sleep (retryInterval c)) (w1\<lparr>ext := y\<rparr>))
                  else (Err resp1, req2, resp2, w1\<lparr>ext := y\<rparr>)))"

text \<open>
  One pass through the loop body up to the end of the after-response middlewares (lines
  685 to 766): either the pass has ended, or it goes on to the classification with
  \<^verbatim>\<open>lastErr\<close>, the request and \<^verbatim>\<open>resp\<close>.
\<close>

definition upToAfterResponse ::
  "'w Env \<Rightarrow> 'w Client \<Rightarrow> int \<Rightarrow> int \<Rightarrow> error option \<Rightarrow> Request \<Rightarrow> 'w World
     \<Rightarrow> 'w flow + (error option \<times> Request \<times> Response \<times> 'w World)" where
  "upToAfterResponse E c maxAttempts attempt lastErr req w =
     (case prepareRequest E c req of
        Inl err \<Rightarrow> Inl (Return None (Some err) w)
      | Inr httpReq \<Rightarrow>
          (case runBefore (beforeRequest c) 0 req (if debug c then emit DebugRequest w else w) of
             (Some err, req1, w1) \<Rightarrow>
               Inl (Return None (Some (Errorf ''before request middleware error'' err)) w1)
           | (None, req1, w1) \<Rightarrow>
               (case httpClient c httpReq (ext w1) of
                  (DoErr err httpResp, x) \<Rightarrow>
                    Inl (retryOrBreak c maxAttempts attempt (Some err) req1
                           ((newResponse httpResp (now E x) (now E x - now E (ext w1)))
                              \<lparr>Err := Some err\<rparr>)
                           (Some err) (emit Send (w1\<lparr>ext := x\<rparr>)))
                | (DoOk httpResp, x) \<Rightarrow>
                    let w2 = emit Send (w1\<lparr>ext := x\<rparr>);
                        resp = newResponse (Some httpResp) (now E x) (now E x - now E (ext w1))
                    in (case http_Response.Body httpResp of
                          Some (Inl err) \<Rightarrow>
                            let resp1 = resp\<lparr>Err := Some (Errorf ''failed to read response body'' err)\<rparr>
                            in Inl (retryOrBreak c maxAttempts attempt (Err resp1) req1 resp1
                                      (Err resp1) w2)
                        | Some (Inr bodyBytes) \<Rightarrow>
                            Inr (runAfter c maxAttempts attempt (afterResponse c) 0 lastErr req1
                                   (copyStatus (resp\<lparr>body := bodyBytes,
                                                     size' := int (length bodyBytes)\<rparr>) httpResp) w2)
                        | None \<Rightarrow>
                            Inr (runAfter c maxAttempts attempt (afterResponse c) 0 lastErr req1
                                   (copyStatus resp httpResp) w2)))))"

text \<open>
  Classification and decoding (lines 768 to 783). The result checker is called, then its
  answer is stored in \<^verbatim>\<open>resp.state\<close>. The error of \<^verbatim>\<open>unmarshalResponse\<close> is kept for the
  success target and dropped for an error target.
\<close>

definition unmarshalResults ::
  "'w Client \<Rightarrow> Request \<Rightarrow> Response \<Rightarrow> 'w World \<Rightarrow> Request \<times> Response \<times> 'w World" where
  "unmarshalResults c req resp w =
     (if Err resp = None then
        (case resultChecker c req resp (ext w) of
           (s, req1, resp0, x) \<Rightarrow>
             let resp1 = resp0\<lparr>state := s\<rparr>;
                 w1 = emit Classify (w\<lparr>ext := x\<rparr>)
             in if state resp1 = SuccessState \<and> successResult req1 \<noteq> None then
                  (case unmarshalResponse c resp1 (the (successResult req1)) (ext w1) of
                     (Some err, y) \<Rightarrow>
                       (req1,
                        resp1\<lparr>Err := Some (Errorf ''failed to unmarshal success result'' err)\<rparr>,
                        w1\<lparr>ext := y\<rparr>)
                   | (None, y) \<Rightarrow> (req1, resp1, w1\<lparr>ext := y\<rparr>))
                else if state resp1 = ErrorState then
                  (if errorResult req1 \<noteq> None then
                     (req1, resp1,
                      w1\<lparr>ext := snd (unmarshalResponse c resp1 (the (errorResult req1)) (ext w1))\<rparr>)
                   else if commonErrorResult c \<noteq> None then
                     (req1, resp1,
                      w1\<lparr>ext := snd (unmarshalResponse c resp1 (the (commonErrorResult c)) (ext w1))\<rparr>)
                   else (req1, resp1, w1))
                else (req1, resp1, w1))
      else (req, resp, w))"

text \<open>The debug output and the retry decision at the end of the loop body (lines 785 to 799).\<close>

definition afterUnmarshal ::
  "'w Client \<Rightarrow> int \<Rightarrow> int \<Rightarrow> error option \<Rightarrow> Request \<Rightarrow> Response \<Rightarrow> 'w World \<Rightarrow> 'w flow" where
  "afterUnmarshal c maxAttempts attempt lastErr req resp w =
     (let w1 = (if debug c then emit DebugResponse w else w)
      in case mayRetry c maxAttempts attempt req resp (Err resp) (ext w1) of
           (retry, req', resp', x) \<Rightarrow>
             if retry
             then Continue lastErr resp' req'
                    (emit (Sleep (retryInterval c))
                       (if debug c then emit DebugRetry (w1\<lparr>ext := x\<rparr>) else w1\<lparr>ext := x\<rparr>))
             else Break lastErr resp' req' (w1\<lparr>ext := x\<rparr>))"

definition endOfAttempt ::
  "'w Client \<Rightarrow> int \<Rightarrow> int \<Rightarrow> error option \<Rightarrow> Request \<Rightarrow> Response \<Rightarrow> 'w World \<Rightarrow> 'w flow" where
  \<comment> \<open>lines 768 to 799\<close>
  "endOfAttempt c maxAttempts attempt lastErr req resp w =
     (case unmarshalResults c req resp w of
        (req1, resp1, w1) \<Rightarrow> afterUnmarshal c maxAttempts attempt lastErr req1 resp1 w1)"

definition attemptBody ::
  "'w Env \<Rightarrow> 'w Client \<Rightarrow> int \<Rightarrow> int \<Rightarrow> error option \<Rightarrow> Request \<Rightarrow> 'w World \<Rightarrow> 'w flow" where
  "attemptBody E c maxAttempts attempt lastErr req w =
     (case upToAfterResponse E c maxAttempts attempt lastErr req w of
        Inl fl \<Rightarrow> fl
      | Inr (lastErr1, req1, resp, w1) \<Rightarrow> endOfAttempt c maxAttempts attempt lastErr1 req1 resp w1)"

text \<open>
  The retry loop \<^verbatim>\<open>for attempt := 0; attempt < maxAttempts; attempt++\<close>. It ends with
  a \<^verbatim>\<open>return\<close> from inside the body, or it is left with the variables \<^verbatim>\<open>lastErr\<close> and
  \<^verbatim>\<open>resp\<close>, where \<^verbatim>\<open>resp\<close> is nil as long as no pass has got as far as the transport.
\<close>

datatype 'w loop_end =
    Returned "Response option" "error option" (loopWorld: "'w World")
  | Left "error option" "Response option" Request (loopWorld: "'w World")

function attempts ::
  "'w Env \<Rightarrow> 'w Client \<Rightarrow> int \<Rightarrow> int \<Rightarrow> error option \<Rightarrow> Response option \<Rightarrow> Request \<Rightarrow> 'w World
     \<Rightarrow> 'w loop_end" where
  "attempts E c maxAttempts attempt lastErr resp req w =
     (if attempt < maxAttempts then
        (case attemptBody E c maxAttempts attempt lastErr req (emit (Attempt attempt) w) of
           Return r e w1 \<Rightarrow> Returned r e w1
         | Continue lastErr1 resp1 req1 w1 \<Rightarrow>
             attempts E c maxAttempts (attempt + 1) lastErr1 (Some resp1) req1 w1
         | Break lastErr1 resp1 req1 w1 \<Rightarrow> Left lastErr1 (Some resp1) req1 w1)
      else Left lastErr resp req w)"
  by pat_completeness auto
termination
  by (relation "measure (\<lambda>(E, c, maxAttempts, attempt, rest). nat (maxAttempts - attempt))") auto

declare attempts.simps [simp del]

text \<open>
  What follows the loop (lines 802 to 811). The error hook gets the request and the
  response through pointers, and \<^verbatim>\<open>execute\<close> returns the response and reads
  \<^verbatim>\<open>resp.Err\<close> after the hook has run. When \<^verbatim>\<open>resp\<close> is still nil and \<^verbatim>\<open>lastErr\<close> is
  nil too, reading \<^verbatim>\<open>resp.Err\<close> is a nil-pointer dereference, a run-time panic.
\<close>

datatype 'w outcome =
    Returns "Response option" "error option" (outcomeWorld: "'w World")
  | Panics (outcomeWorld: "'w World")

definition afterLoop ::
  "'w Client \<Rightarrow> Request \<Rightarrow> error option \<Rightarrow> Response option \<Rightarrow> 'w World \<Rightarrow> 'w outcome" where
  "afterLoop c req lastErr resp w =
     (case resp of
        None \<Rightarrow> (case lastErr of Some e \<Rightarrow> Returns None (Some e) w | None \<Rightarrow> Panics w)
      | Some r \<Rightarrow>
          (case (Err r, onError c) of
             (Some e, Some hook) \<Rightarrow>
               (case hook req r e (ext w) of
                  (req', r', x) \<Rightarrow> Returns (Some r') (Err r') (emit ErrorHookCall (w\<lparr>ext := x\<rparr>)))
           | _ \<Rightarrow> Returns (Some r) (Err r) w))"

definition finish :: "'w Client \<Rightarrow> 'w loop_end \<Rightarrow> 'w outcome" where
  "finish c le =
     (case le of
        Returned r e w \<Rightarrow> Returns r e w
      | Left lastErr resp req w \<Rightarrow> afterLoop c req lastErr resp w)"

definition execute :: "'w Env \<Rightarrow> 'w Client \<Rightarrow> Request \<Rightarrow> 'w World \<Rightarrow> 'w outcome" where
  "execute E c req w = finish c (attempts E c (int64 (retryCount c + 1)) 0 None None req w)"

definition Execute :: "'w Env \<Rightarrow> 'w Client \<Rightarrow> Request \<Rightarrow> 'w \<Rightarrow> 'w outcome" where
  \<comment> \<open>\<^verbatim>\<open>Request.Execute\<close>, on the client the request is bound to\<close>
  "Execute E c req x = execute E c req \<lparr>trace = [], ext = x\<rparr>"

definition MustExecute :: "'w Env \<Rightarrow> 'w Client \<Rightarrow> Request \<Rightarrow> 'w \<Rightarrow> 'w outcome" where
  \<comment> \<open>\<^verbatim>\<open>if err != nil { panic(err) }\<close>\<close>
  "MustExecute E c req x =
     (case Execute E c req x of
        Returns r (Some e) w \<Rightarrow> Panics w
      | out \<Rightarrow> out)"

section \<open>Example values\<close>

text \<open>
  A stand-in for \<^verbatim>\<open>url.Parse\<close>, \<^verbatim>\<open>url.ParseQuery\<close> and \<^verbatim>\<open>URL.String\<close> for the
  examples. Like \<^verbatim>\<open>url.Parse\<close> it rejects a string with an ASCII control character and
  a string in which a \<^verbatim>\<open>%\<close> outside the query is not followed by two hexadecimal
  digits. It reads absolute \<^verbatim>\<open>http\<close> and \<^verbatim>\<open>https\<close> URLs and paths; it keeps the path as
  it is written, which is what \<^verbatim>\<open>url.Parse\<close> stores in the field \<^verbatim>\<open>Path\<close> when the path
  has no percent escape. The keys of a path-parameter map are visited in the order of
  the given list.
\<close>

definition controlChar :: "char \<Rightarrow> bool" where
  "controlChar ch = (of_char ch < (32 :: nat) \<or> of_char ch = (127 :: nat))"

definition hexDigit :: "char \<Rightarrow> bool" where
  "hexDigit ch = (ch \<in> set ''0123456789abcdefABCDEF'')"

fun wellEscaped :: "string \<Rightarrow> bool" where
  "wellEscaped [] = True"
| "wellEscaped (ch # cs) =
     ((if ch = CHR ''%''
       then (case cs of a # b # rest \<Rightarrow> hexDigit a \<and> hexDigit b | _ \<Rightarrow> False)
       else True)
      \<and> wellEscaped cs)"

definition cutBefore :: "char \<Rightarrow> string \<Rightarrow> string" where
  "cutBefore sep s = takeWhile (\<lambda>ch. ch \<noteq> sep) s"

definition cutAfter :: "char \<Rightarrow> string \<Rightarrow> string" where
  "cutAfter sep s = drop 1 (dropWhile (\<lambda>ch. ch \<noteq> sep) s)"

definition exampleParse :: "string \<Rightarrow> error + URL" where
  "exampleParse s =
     (let f = cutAfter (CHR ''#'') s;
          p = cutBefore (CHR ''?'') (cutBefore (CHR ''#'') s);
          q = cutAfter (CHR ''?'') (cutBefore (CHR ''#'') s);
          a = (if HasPrefix p ''http://'' then 7 else if HasPrefix p ''https://'' then 8 else 0)
      in if list_ex controlChar s
           then Inl (Error ''net/url: invalid control character in URL'')
         else if \<not> wellEscaped p \<or> \<not> wellEscaped f
           then Inl (Error ''invalid URL escape'')
         else if a = 0
           then Inr \<lparr>Scheme = [], Host = [], Path = p, RawQuery = q, Fragment = f\<rparr>
         else Inr \<lparr>Scheme = take (a - 3) p,
                   Host = cutBefore (CHR ''/'') (drop a p),
                   Path = dropWhile (\<lambda>ch. ch \<noteq> CHR ''/'') (drop a p),
                   RawQuery = q, Fragment = f\<rparr>)"

fun splitOn :: "char \<Rightarrow> string \<Rightarrow> string list" where
  "splitOn sep [] = [[]]"
| "splitOn sep (ch # cs) =
     (if ch = sep then [] # splitOn sep cs
      else (case splitOn sep cs of [] \<Rightarrow> [[ch]] | part # parts \<Rightarrow> (ch # part) # parts))"

definition exampleParseQuery :: "string \<Rightarrow> Values" where
  \<comment> \<open>for a query without percent escapes: the pairs \<^verbatim>\<open>key=value\<close> between the \<^verbatim>\<open>&\<close>\<close>
  "exampleParseQuery s =
     fold (\<lambda>kv q. if kv = [] then q
                   else Values_Add q (cutBefore (CHR ''='') kv) (cutAfter (CHR ''='') kv))
          (splitOn (CHR ''&'') s) []"

definition exampleString :: "URL \<Rightarrow> string" where
  "exampleString u =
     (if Scheme u = [] then [] else Scheme u @ ''://'') @ Host u @ Path u
       @ (if RawQuery u = [] then [] else ''?'' @ RawQuery u)
       @ (if Fragment u = [] then [] else ''#'' @ Fragment u)"

definition exampleEnv :: "string list \<Rightarrow> nat Env" where
  "exampleEnv ks =
     \<lparr>Parse = exampleParse,
      ParseQuery = exampleParseQuery,
      URL_String = exampleString,
      rangeKeys = (\<lambda>m. filter (\<lambda>k. m k \<noteq> None) ks),
      newRequestError = (\<lambda>cx m u. None),
      basicAuthValue = (\<lambda>u p. u @ '':'' @ p),
      cookieString = (\<lambda>ck. Name ck @ ''='' @ Value ck),
      now = (\<lambda>x. 0)\<rparr>"

definition okResponse :: http_Response where
  "okResponse =
     \<lparr>http_Response.Status = ''200 OK'', http_Response.StatusCode = 200,
      http_Response.Proto = ''HTTP/1.1'', http_Response.ProtoMajor = 1,
      http_Response.ProtoMinor = 1,
      http_Response.Header = [(''Content-Type'', [''application/json''])],
      http_Response.Body = Some (Inr ''{}'')\<rparr>"

text \<open>
  A client as \<^verbatim>\<open>NewClient\<close> sets it up, on a transport that answers every request with
  \<^const>\<open>okResponse\<close>. The world is the number of requests the transport has seen.
\<close>

definition exampleClient :: "nat Client" where
  "exampleClient =
     \<lparr>httpClient = (\<lambda>rq x. (DoOk okResponse, Suc x)),
      baseURL = [], timeout = 30,
      headers = [(''Content-Type'', [''application/json''])],
      queryParams = [], pathParams = [], formData = [], cookies = [],
      userAgent = ''Go-http-client/1.1'',
      beforeRequest = [], afterResponse = [],
      jsonMarshal = (\<lambda>b. Inr []), jsonUnmarshal = (\<lambda>d v x. (None, x)),
      xmlMarshal = (\<lambda>b. Inr []), xmlUnmarshal = (\<lambda>d v x. (None, x)),
      debug = False, allowGetPayload = False,
      retryCount = 0, retryInterval = 1000000000, retryCondition = None,
      errorHandler = None, onError = None, commonErrorResult = None,
      resultChecker = reading defaultResultChecker\<rparr>"

definition exampleRequest :: Request where
  \<comment> \<open>\<^verbatim>\<open>c.Get("http://example.com/")\<close>\<close>
  "exampleRequest = (Http 0)\<lparr>url := ''http://example.com/'', method := ''GET''\<rparr>"

definition failingHook :: "nat ResponseMiddleware" where
  "failingHook req resp x = (Some (Error ''boom''), req, resp, x)"

definition passingHook :: "nat ResponseMiddleware" where
  "passingHook req resp x = (None, req, resp, x)"

definition failingBefore :: "nat RequestMiddleware" where
  "failingBefore req x = (Some (Error ''denied''), req, x)"

definition passingBefore :: "nat RequestMiddleware" where
  "passingBefore req x = (None, req, x)"

section \<open>Notions used in the statements\<close>

text \<open>How often a trace records the start of an attempt, a send, a sleep, a classification.\<close>

definition attemptsIn :: "event list \<Rightarrow> nat" where
  "attemptsIn tr = length (filter (\<lambda>e. case e of Attempt _ \<Rightarrow> True | _ \<Rightarrow> False) tr)"

definition sendsIn :: "event list \<Rightarrow> nat" where
  "sendsIn tr = length (filter (\<lambda>e. e = Send) tr)"

definition sleepsIn :: "event list \<Rightarrow> nat" where
  "sleepsIn tr = length (filter (\<lambda>e. case e of Sleep _ \<Rightarrow> True | _ \<Rightarrow> False) tr)"

definition classifiesIn :: "event list \<Rightarrow> nat" where
  "classifiesIn tr = length (filter (\<lambda>e. e = Classify) tr)"

text \<open>
  The pacing of a call is what its trace says about attempts, sends and sleeps, in order.
  \<open>rounds d k n sent\<close> is the pacing of \<open>n + 1\<close> consecutive attempts, numbered from
  \<open>k\<close>: each attempt but the last hands one request to the transport and is followed
  by one sleep of duration \<open>d\<close>; the last attempt hands one request to the transport when
  \<open>sent\<close> is true and none otherwise, and no sleep follows it.
\<close>

definition pacing :: "event list \<Rightarrow> event list" where
  "pacing tr =
     filter (\<lambda>e. case e of Attempt _ \<Rightarrow> True | Send \<Rightarrow> True | Sleep _ \<Rightarrow> True | _ \<Rightarrow> False) tr"


text \<open>
  The first before-request middleware that returns an error when the middlewares are
  called in order, each on the request and the world the one before left: its position,
  its error, and the request and world it leaves.
\<close>

fun firstFailure ::
  "'w RequestMiddleware list \<Rightarrow> Request \<Rightarrow> 'w \<Rightarrow> (nat \<times> error \<times> Request \<times> 'w) option" where
  "firstFailure [] req x = None"
| "firstFailure (mw # mws) req x =
     (case mw req x of
        (Some err, req', x') \<Rightarrow> Some (0, err, req', x')
      | (None, req', x') \<Rightarrow>
          map_option (\<lambda>(i, found). (Suc i, found)) (firstFailure mws req' x'))"
























text \<open>
  The query of a URL as the corrected claim describes it: the keys in sorted order, and
  for each key the URL's own values, then the client's, then the request's, each written
  as \<^verbatim>\<open>key=value\<close> with both sides escaped, joined by \<^verbatim>\<open>&\<close>.
\<close>

definition pairsInOrder :: "Values \<Rightarrow> Values \<Rightarrow> Values \<Rightarrow> (string \<times> string) list" where
  "pairsInOrder own cl rq =
     concat (map (\<lambda>k. map (Pair k) (index own k @ index cl k @ index rq k))
                 (sort (remdups (map fst own @ map fst cl @ map fst rq))))"

definition writeQuery :: "(string \<times> string) list \<Rightarrow> string" where
  "writeQuery ps = Join (map (\<lambda>(k, x). QueryEscape k @ ''='' @ QueryEscape x) ps) ''&''"

text \<open>
  A URL template read as literal text and placeholders: \<open>Placeholder k\<close> stands for
  \<^verbatim>\<open>{k}\<close>. A plain template has no brace inside a literal or inside a placeholder's
  name, so its placeholders are not nested. \<open>expand\<close> fills a placeholder from a map and
  leaves it as it is when the map has no value for its name.
\<close>

datatype segment = Lit string | Placeholder string

fun render :: "segment list \<Rightarrow> string" where
  "render [] = []"
| "render (Lit s # segs) = s @ render segs"
| "render (Placeholder k # segs) = ''{'' @ k @ ''}'' @ render segs"

definition braceFree :: "string \<Rightarrow> bool" where
  "braceFree s = (CHR ''{'' \<notin> set s \<and> CHR ''}'' \<notin> set s)"

fun plainSegment :: "segment \<Rightarrow> bool" where
  "plainSegment (Lit s) = braceFree s"
| "plainSegment (Placeholder k) = braceFree k"

definition plainTemplate :: "segment list \<Rightarrow> bool" where
  "plainTemplate segs = list_all plainSegment segs"

fun expand :: "(string \<rightharpoonup> string) \<Rightarrow> segment \<Rightarrow> string" where
  "expand m (Lit s) = s"
| "expand m (Placeholder k) = (case m k of Some v \<Rightarrow> v | None \<Rightarrow> ''{'' @ k @ ''}'')"

fun fill :: "(string \<rightharpoonup> string) \<Rightarrow> string set \<Rightarrow> segment \<Rightarrow> segment" where
  \<comment> \<open>the placeholders whose names are in the set are filled\<close>
  "fill m K (Lit s) = Lit s"
| "fill m K (Placeholder k) =
     (if k \<in> K then (case m k of Some v \<Rightarrow> Lit v | None \<Rightarrow> Placeholder k)
      else Placeholder k)"

definition orgClient :: "nat Client" where
  "orgClient = exampleClient\<lparr>baseURL := ''http://example.com'',
                              pathParams := [(''id'', ''1''), (''org'', ''acme'')]\<rparr>"

section \<open>\<^verbatim>\<open>request.go\<close>: requests in memory and \<^verbatim>\<open>Clone\<close>\<close>

text \<open>
  \<^verbatim>\<open>Clone\<close> is about which maps and slices two requests share, so here a request is
  what the Go struct is: its scalar fields, and references to its containers. Memory is a
  list of cells, an address is a position in it, and allocating appends a cell. A
  \<^verbatim>\<open>map[string][]string\<close> cell maps each key to the address of a backing array of
  strings. Reading an address that holds no cell of the expected kind gives the empty
  container, as reading a nil map or slice does. The cookies a slice points to are shared
  by the original and the clone; they are values here.
\<close>

datatype cell =
    MultiMap "(string \<times> nat) list"
  | Strings "string list"
  | StrMap "(string \<times> string) list"
  | Cookies "Cookie list"

type_synonym heap = "cell list"






record RequestObj =
  client :: nat
  "method" :: string
  url :: string
  ctx :: "nat option"
  headers :: nat
  queryParams :: nat
  pathParams :: nat
  formData :: nat
  body :: "payload option"
  bodyType :: string
  cookies :: nat
  userAgent :: string
  basicAuth :: basicAuth
  bearerToken :: string
  successResult :: "nat option"
  errorResult :: "nat option"
  downloadPath :: string
  uploadCallback :: "nat option"
  tracer :: "nat option"
  spanName :: string













text \<open>A memory extends another when it has all its cells, unchanged, and maybe more.\<close>

definition extends :: "heap \<Rightarrow> heap \<Rightarrow> bool" where
  "extends h h' = (length h \<le> length h' \<and> (\<forall>a<length h. h' ! a = h ! a))"





section \<open>The default classifier\<close>

text \<open>
  Claim C8. With the default classifier, a response whose status code is between 200 and
  299 is a Success, one whose status code is 400 or more is an Error, and one whose
  status code is between 100 and 199 or between 300 and 399 is Unknown.
\<close>

theorem defaultResultChecker_classes:
  "(200 \<le> Response.StatusCode resp \<and> Response.StatusCode resp \<le> 299
      \<longrightarrow> defaultResultChecker resp = SuccessState)
   \<and> (400 \<le> Response.StatusCode resp \<longrightarrow> defaultResultChecker resp = ErrorState)
   \<and> ((100 \<le> Response.StatusCode resp \<and> Response.StatusCode resp \<le> 199)
        \<or> (300 \<le> Response.StatusCode resp \<and> Response.StatusCode resp \<le> 399)
      \<longrightarrow> defaultResultChecker resp = UnknownState)"
  by (simp add: defaultResultChecker_def)

theorem defaultResultChecker_classes_witness:
  "(200 \<le> Response.StatusCode ((newResponse None 0 0)\<lparr>Response.StatusCode := 204\<rparr>)
      \<and> Response.StatusCode ((newResponse None 0 0)\<lparr>Response.StatusCode := 204\<rparr>) \<le> 299)
   \<and> defaultResultChecker ((newResponse None 0 0)\<lparr>Response.StatusCode := 204\<rparr>)
       = SuccessState
   \<and> 400 \<le> Response.StatusCode ((newResponse None 0 0)\<lparr>Response.StatusCode := 503\<rparr>)
   \<and> defaultResultChecker ((newResponse None 0 0)\<lparr>Response.StatusCode := 503\<rparr>)
       = ErrorState
   \<and> (100 \<le> Response.StatusCode ((newResponse None 0 0)\<lparr>Response.StatusCode := 101\<rparr>)
      \<and> Response.StatusCode ((newResponse None 0 0)\<lparr>Response.StatusCode := 101\<rparr>) \<le> 199)
   \<and> defaultResultChecker ((newResponse None 0 0)\<lparr>Response.StatusCode := 101\<rparr>)
       = UnknownState
   \<and> (300 \<le> Response.StatusCode ((newResponse None 0 0)\<lparr>Response.StatusCode := 302\<rparr>)
      \<and> Response.StatusCode ((newResponse None 0 0)\<lparr>Response.StatusCode := 302\<rparr>) \<le> 399)
   \<and> defaultResultChecker ((newResponse None 0 0)\<lparr>Response.StatusCode := 302\<rparr>)
       = UnknownState"
  using
    defaultResultChecker_classes
      [of "(newResponse None 0 0)\<lparr>Response.StatusCode := 204\<rparr>"]
    defaultResultChecker_classes
      [of "(newResponse None 0 0)\<lparr>Response.StatusCode := 503\<rparr>"]
    defaultResultChecker_classes
      [of "(newResponse None 0 0)\<lparr>Response.StatusCode := 101\<rparr>"]
    defaultResultChecker_classes
      [of "(newResponse None 0 0)\<lparr>Response.StatusCode := 302\<rparr>"]
  by (simp add: newResponse_def)

section \<open>A negative retry count\<close>

text \<open>
  Claim C2 says that \<^verbatim>\<open>Execute\<close> always returns a response and an error and never
  panics by itself. \<^verbatim>\<open>SetRetryCount\<close> stores any \<^verbatim>\<open>int\<close>. After
  \<^verbatim>\<open>SetRetryCount(-1)\<close> the retry loop is not entered, \<^verbatim>\<open>resp\<close> and \<^verbatim>\<open>lastErr\<close> are
  both nil, the guard \<^verbatim>\<open>resp == nil && lastErr != nil\<close> does not apply, and the final
  \<^verbatim>\<open>return resp, resp.Err\<close> dereferences the nil pointer: for every environment, every
  other client setting, every request and every world, \<^verbatim>\<open>Execute\<close> panics, before it has
  called anything.
\<close>

theorem Execute_negative_retryCount_panics:
  "Execute E (c\<lparr>retryCount := - 1\<rparr>) req x = Panics \<lparr>trace = [], ext = x\<rparr>"
  by (simp add: Execute_def execute_def int64_def attempts.simps finish_def afterLoop_def)

section \<open>A failing after-response middleware\<close>

text \<open>
  Claim C1 says that after an after-response middleware has failed, the middlewares
  registered after it are not run in that attempt. Here the client allows one retry, its
  first after-response middleware fails and its second one succeeds, and the default retry
  condition is in place. In the first attempt the second middleware runs after the first
  one has failed, and the retry interval is slept twice before the second attempt starts;
  in the second and last attempt the failure does end the middleware loop.
\<close>

theorem after_hook_failure_runs_later_hooks:
  "(case Execute (exampleEnv [])
           (exampleClient\<lparr>retryCount := 1, afterResponse := [failingHook, passingHook]\<rparr>)
           exampleRequest 0 of
      Returns r e w \<Rightarrow> (trace w, e)
    | Panics w \<Rightarrow> ([], None))
   = ([Attempt 0, Send, AfterHook 0, Sleep 1000000000, AfterHook 1, Sleep 1000000000,
       Attempt 1, Send, AfterHook 0],
      Some (Errorf ''after response middleware error'' (Error ''boom'')))"
  by code_simp

section \<open>A failing before-request middleware\<close>

lemma emit_simps [simp]:
  "trace (emit e w) = trace w @ [e]" "ext (emit e w) = ext w"
  by (simp_all add: emit_def)

lemma runBefore_firstFailure:
  "firstFailure hs req (ext w) = Some (i, err, req', x') \<Longrightarrow>
   runBefore hs j req w
     = (Some err, req', \<lparr>trace = trace w @ map BeforeHook [j..<j + Suc i], ext = x'\<rparr>)"
proof (induction hs arbitrary: req w i j)
  case Nil
  then show ?case by simp
next
  case (Cons mw mws)
  obtain e r y where mw: "mw req (ext w) = (e, r, y)"
    by (cases "mw req (ext w)") auto
  show ?case
  proof (cases e)
    case None
    with Cons.prems mw obtain i' where i': "i = Suc i'"
      and ff: "firstFailure mws r y = Some (i', err, req', x')"
      by (auto split: prod.splits)
    have "runBefore mws (Suc j) r (emit (BeforeHook j) (w\<lparr>ext := y\<rparr>))
          = (Some err, req',
             \<lparr>trace = trace (emit (BeforeHook j) (w\<lparr>ext := y\<rparr>))
                        @ map BeforeHook [Suc j..<Suc j + Suc i'],
              ext = x'\<rparr>)"
      by (rule Cons.IH) (simp add: ff)
    then show ?thesis
      using mw None i' by (simp add: upt_rec[of j])
  next
    case (Some a)
    with Cons.prems mw show ?thesis
      by (auto simp: emit_def)
  qed
qed

lemma before_abort_from:
  assumes "prepareRequest E c req = Inr httpReq"
      and "firstFailure (beforeRequest c) req (ext w) = Some (i, err, req', x')"
      and "k < maxA"
  shows "finish c (attempts E c maxA k lastErr resp req w)
         = Returns None (Some (Errorf ''before request middleware error'' err))
             \<lparr>trace = trace w @ Attempt k # (if debug c then [DebugRequest] else [])
                        @ map BeforeHook [0..<Suc i],
              ext = x'\<rparr>"
proof -
  let ?w0 = "if debug c then emit DebugRequest (emit (Attempt k) w) else emit (Attempt k) w"
  have "firstFailure (beforeRequest c) req (ext ?w0) = Some (i, err, req', x')"
    using assms(2) by simp
  from runBefore_firstFailure[OF this, of 0]
  have rb: "runBefore (beforeRequest c) 0 req ?w0
            = (Some err, req', \<lparr>trace = trace ?w0 @ map BeforeHook [0..<Suc i], ext = x'\<rparr>)"
    by simp
  show ?thesis
    using assms(1,3) rb
    by (subst attempts.simps) (simp add: attemptBody_def upToAfterResponse_def finish_def)
qed

lemma int64_id: "- (2 ^ 63) \<le> n \<Longrightarrow> n < 2 ^ 63 \<Longrightarrow> int64 n = n"
  by (simp add: int64_def)

text \<open>
  Claim C4. Let the request be one that \<^verbatim>\<open>prepareRequest\<close> accepts, and let the
  before-request middleware at position \<open>i\<close> be the first that returns an error. Then,
  in whichever attempt \<open>k\<close> of the retry loop this happens, the call ends there and
  returns no response and that error, wrapped by
  \<^verbatim>\<open>fmt.Errorf("before request middleware error: %w", err)\<close>; after the start of the
  attempt the trace holds the middlewares \<open>0\<close> to \<open>i\<close> and nothing else: no later
  middleware, no send, no sleep, no further attempt. For a call of \<^verbatim>\<open>Execute\<close> with a
  retry count \<open>N \<ge> 0\<close> whose first attempt fails so, exactly one attempt is made.
\<close>

theorem before_hook_failure_aborts:
  assumes "prepareRequest E c req = Inr httpReq"
      and "firstFailure (beforeRequest c) req x = Some (i, err, req', x')"
  shows "(k < maxAttempts \<longrightarrow>
            finish c (attempts E c maxAttempts k lastErr resp req \<lparr>trace = tr, ext = x\<rparr>)
            = Returns None (Some (Errorf ''before request middleware error'' err))
                \<lparr>trace = tr @ Attempt k # (if debug c then [DebugRequest] else [])
                           @ map BeforeHook [0..<Suc i],
                 ext = x'\<rparr>)
       \<and> (0 \<le> retryCount c \<and> retryCount c < 2 ^ 63 - 1 \<longrightarrow>
            Execute E c req x
            = Returns None (Some (Errorf ''before request middleware error'' err))
                \<lparr>trace = Attempt 0 # (if debug c then [DebugRequest] else [])
                           @ map BeforeHook [0..<Suc i],
                 ext = x'\<rparr>)"
proof (intro conjI impI)
  assume "k < maxAttempts"
  with assms show "finish c (attempts E c maxAttempts k lastErr resp req \<lparr>trace = tr, ext = x\<rparr>)
            = Returns None (Some (Errorf ''before request middleware error'' err))
                \<lparr>trace = tr @ Attempt k # (if debug c then [DebugRequest] else [])
                           @ map BeforeHook [0..<Suc i],
                 ext = x'\<rparr>"
    using before_abort_from[of E c req httpReq "\<lparr>trace = tr, ext = x\<rparr>" i err req' x' k maxAttempts]
    by simp
next
  assume n: "0 \<le> retryCount c \<and> retryCount c < 2 ^ 63 - 1"
  then have m: "int64 (retryCount c + 1) = retryCount c + 1"
    by (intro int64_id) auto
  from n have "0 < retryCount c + 1" by simp
  with assms m show "Execute E c req x
            = Returns None (Some (Errorf ''before request middleware error'' err))
                \<lparr>trace = Attempt 0 # (if debug c then [DebugRequest] else [])
                           @ map BeforeHook [0..<Suc i],
                 ext = x'\<rparr>"
    using before_abort_from[of E c req httpReq "\<lparr>trace = [], ext = x\<rparr>" i err req' x' 0
                               "retryCount c + 1" None None]
    by (simp add: Execute_def execute_def)
qed

theorem before_hook_failure_aborts_witness:
  "prepareRequest (exampleEnv [])
      (exampleClient\<lparr>retryCount := 2, beforeRequest := [passingBefore, failingBefore, passingBefore]\<rparr>)
      exampleRequest
     = Inr \<lparr>Method = ''GET'', URL = ''http://example.com/'',
            http_Request.Header = [(''Content-Type'', [''application/json'']),
                                   (''User-Agent'', [''Go-http-client/1.1''])],
            http_Request.Body = NoBody, Context = Some 0\<rparr>
   \<and> firstFailure [passingBefore, failingBefore, passingBefore] exampleRequest 0
       = Some (1, Error ''denied'', exampleRequest, 0)
   \<and> (0::int) \<le> 2 \<and> (2::int) < 2 ^ 63 - 1 \<and> (0::int) < 3
   \<and> finish (exampleClient\<lparr>retryCount := 2, beforeRequest := [passingBefore, failingBefore, passingBefore]\<rparr>)
        (attempts (exampleEnv [])
           (exampleClient\<lparr>retryCount := 2, beforeRequest := [passingBefore, failingBefore, passingBefore]\<rparr>)
           3 0 None None exampleRequest \<lparr>trace = [], ext = 0\<rparr>)
       = Returns None (Some (Errorf ''before request middleware error'' (Error ''denied'')))
           \<lparr>trace = [Attempt 0, BeforeHook 0, BeforeHook 1], ext = 0\<rparr>
   \<and> Execute (exampleEnv [])
        (exampleClient\<lparr>retryCount := 2, beforeRequest := [passingBefore, failingBefore, passingBefore]\<rparr>)
        exampleRequest 0
       = Returns None (Some (Errorf ''before request middleware error'' (Error ''denied'')))
           \<lparr>trace = [Attempt 0, BeforeHook 0, BeforeHook 1], ext = 0\<rparr>"
proof -
  let ?c = "exampleClient\<lparr>retryCount := 2, beforeRequest := [passingBefore, failingBefore, passingBefore]\<rparr>"
  have p: "prepareRequest (exampleEnv []) ?c exampleRequest
     = Inr \<lparr>Method = ''GET'', URL = ''http://example.com/'',
            http_Request.Header = [(''Content-Type'', [''application/json'']),
                                   (''User-Agent'', [''Go-http-client/1.1''])],
            http_Request.Body = NoBody, Context = Some 0\<rparr>"
    by code_simp
  have f: "firstFailure (beforeRequest ?c) exampleRequest 0
       = Some (1, Error ''denied'', exampleRequest, 0)"
    by (simp add: passingBefore_def failingBefore_def)
  have r: "retryCount ?c = 2" "debug ?c = False" by (simp_all add: exampleClient_def)
  from before_hook_failure_aborts[OF p f, of 0 3 None None "[]"] f r
  show ?thesis using p by (simp add: upt_rec)
qed

section \<open>The attempt budget\<close>

lemma counts_simps [simp]:
  "attemptsIn [] = 0" "sendsIn [] = 0" "sleepsIn [] = 0" "classifiesIn [] = 0"
  "attemptsIn (e # tr) = (case e of Attempt _ \<Rightarrow> 1 | _ \<Rightarrow> 0) + attemptsIn tr"
  "sendsIn (e # tr) = (if e = Send then 1 else 0) + sendsIn tr"
  "sleepsIn (e # tr) = (case e of Sleep _ \<Rightarrow> 1 | _ \<Rightarrow> 0) + sleepsIn tr"
  "classifiesIn (e # tr) = (if e = Classify then 1 else 0) + classifiesIn tr"
  "attemptsIn (tr @ tr') = attemptsIn tr + attemptsIn tr'"
  "sendsIn (tr @ tr') = sendsIn tr + sendsIn tr'"
  "sleepsIn (tr @ tr') = sleepsIn tr + sleepsIn tr'"
  "classifiesIn (tr @ tr') = classifiesIn tr + classifiesIn tr'"
  by (simp_all add: attemptsIn_def sendsIn_def sleepsIn_def classifiesIn_def split: event.splits)

lemma pacing_simps [simp]:
  "pacing [] = []"
  "pacing (tr @ tr') = pacing tr @ pacing tr'"
  "pacing (e # tr) =
     (case e of Attempt _ \<Rightarrow> e # pacing tr | Send \<Rightarrow> e # pacing tr | Sleep _ \<Rightarrow> e # pacing tr
      | _ \<Rightarrow> pacing tr)"
  by (simp_all add: pacing_def split: event.splits)






















section \<open>Responses that are never classified\<close>

lemma newResponse_state [simp]: "state (newResponse hr t d) = 0" "Err (newResponse hr t d) = None"
  by (simp_all add: newResponse_def)

lemma copyStatus_state [simp]: "state (copyStatus r hr) = state r" "Err (copyStatus r hr) = Err r"
  by (simp_all add: copyStatus_def)











section \<open>Decoding into the success target and into an error target\<close>


lemma World_updates [simp]:
  "(w :: 'w World)\<lparr>trace := t, ext := y\<rparr> = \<lparr>trace = t, ext = y\<rparr>"
  "(w :: 'w World)\<lparr>ext := y, trace := t\<rparr> = \<lparr>trace = t, ext = y\<rparr>"
  by (cases w, simp)+






section \<open>Merging the query parameters\<close>

lemma index_Values_Add:
  "index (Values_Add q k x) k' = (if k' = k then index q k @ [x] else index q k')"
  by (simp add: index_def Values_Add_def update_conv')

lemma index_fold_Add:
  "index (fold (\<lambda>x q'. Values_Add q' k x) vals q) k'
     = (if k' = k then index q k @ vals else index q k')"
  by (induction vals arbitrary: q) (simp_all add: index_Values_Add)

lemma index_absent: "k \<notin> fst ` set src \<Longrightarrow> index src k = []"
  by (simp add: index_def map_of_eq_None_iff[THEN iffD2])

lemma index_add_each:
  "is_map src \<Longrightarrow> index (add_each q src) k = index q k @ index src k"
proof (induction src arbitrary: q)
  case Nil
  then show ?case by (simp add: add_each_def index_def)
next
  case (Cons p src)
  obtain k0 vals where p: "p = (k0, vals)" by (cases p) auto
  from Cons.prems p have d: "is_map src" and n: "k0 \<notin> fst ` set src"
    by (auto simp: is_map_def)
  have "add_each q (p # src) = add_each (fold (\<lambda>x q'. Values_Add q' k0 x) vals q) src"
    by (simp add: add_each_def p)
  then show ?case
    using Cons.IH[OF d, of "fold (\<lambda>x q'. Values_Add q' k0 x) vals q"] n p
    by (auto simp: index_fold_Add index_absent) (simp_all add: index_def)
qed

lemma index_mergeQuery:
  "is_map cq \<Longrightarrow> is_map rq \<Longrightarrow> index (mergeQuery q cq rq) k = index q k @ index cq k @ index rq k"
  by (simp add: mergeQuery_def index_add_each)

lemma keys_Values_Add: "fst ` set (Values_Add q k x) = insert k (fst ` set q)"
  by (simp add: Values_Add_def dom_update)

lemma keys_fold_Add:
  "fst ` set (fold (\<lambda>x q'. Values_Add q' k x) vals q) \<subseteq> insert k (fst ` set q)"
proof (induction vals arbitrary: q)
  case Nil
  then show ?case by auto
next
  case (Cons a vals)
  from Cons.IH[of "Values_Add q k a"] show ?case by (simp add: keys_Values_Add)
qed

lemma keys_add_each: "fst ` set (add_each q src) \<subseteq> fst ` set q \<union> fst ` set src"
proof (induction src arbitrary: q)
  case Nil
  then show ?case by (simp add: add_each_def)
next
  case (Cons p src)
  obtain k0 vals where p: "p = (k0, vals)" by (cases p) auto
  have "add_each q (p # src) = add_each (fold (\<lambda>x q'. Values_Add q' k0 x) vals q) src"
    by (simp add: add_each_def p)
  with Cons.IH[of "fold (\<lambda>x q'. Values_Add q' k0 x) vals q"] keys_fold_Add[of k0 vals q] p
  show ?case by auto
qed

lemma keys_mergeQuery:
  "fst ` set (mergeQuery q cq rq) \<subseteq> fst ` set q \<union> fst ` set cq \<union> fst ` set rq"
  using keys_add_each[of "add_each q cq" rq] keys_add_each[of q cq]
  by (auto simp: mergeQuery_def)

lemma concat_map_filter: "concat (map F xs) = concat (map F (filter (\<lambda>k. F k \<noteq> []) xs))"
  by (induction xs) simp_all

text \<open>Keys without values write nothing, so they may be left out of the sorted keys.\<close>

lemma concat_sorted_keys:
  fixes A B :: "string list"
  assumes "set A \<subseteq> set B" and "\<forall>k \<in> set B - set A. F k = []"
  shows "concat (map F (sort (remdups A))) = concat (map F (sort (remdups B)))"
proof -
  let ?P = "\<lambda>k. F k \<noteq> []"
  have "filter ?P (sort (remdups A)) = filter ?P (sort (remdups B))"
  proof (rule sorted_distinct_set_unique)
    show "sorted (filter ?P (sort (remdups A)))" "sorted (filter ?P (sort (remdups B)))"
      by (simp_all add: sorted_wrt_filter)
    show "distinct (filter ?P (sort (remdups A)))" "distinct (filter ?P (sort (remdups B)))"
      by simp_all
    show "set (filter ?P (sort (remdups A))) = set (filter ?P (sort (remdups B)))"
      using assms by auto
  qed
  then show ?thesis
    using concat_map_filter[of F "sort (remdups A)"] concat_map_filter[of F "sort (remdups B)"]
    by simp
qed

lemma Values_Encode_mergeQuery:
  assumes "is_map cq" and "is_map rq"
  shows "Values_Encode (mergeQuery own cq rq) = writeQuery (pairsInOrder own cq rq)"
proof -
  let ?m = "mergeQuery own cq rq"
  let ?F = "\<lambda>k. map (\<lambda>x. QueryEscape k @ ''='' @ QueryEscape x) (index ?m k)"
  have sub: "set (map fst ?m) \<subseteq> set (map fst own @ map fst cq @ map fst rq)"
    using keys_mergeQuery[of own cq rq] by auto
  have empty: "\<forall>k \<in> set (map fst own @ map fst cq @ map fst rq) - set (map fst ?m). ?F k = []"
    by (auto simp: index_absent)
  have "map (\<lambda>(k, x). QueryEscape k @ ''='' @ QueryEscape x) (pairsInOrder own cq rq)
        = concat (map ?F (sort (remdups (map fst own @ map fst cq @ map fst rq))))"
    by (simp add: pairsInOrder_def map_concat comp_def index_mergeQuery[OF assms])
  also have "\<dots> = concat (map ?F (sort (remdups (map fst ?m))))"
    by (rule concat_sorted_keys[OF sub empty, symmetric])
  finally show ?thesis
    by (simp add: Values_Encode_def writeQuery_def)
qed

lemma a_query:
  "Values_Encode (mergeQuery [] [(''a'', [''1''])] [(''a'', [''2''])]) = ''a=1&a=2''"
  "writeQuery (pairsInOrder [] [(''a'', [''1''])] [(''a'', [''2''])]) = ''a=1&a=2''"
  by code_simp+

text \<open>
  Claim C6, as the code has it. When the URL parses, \<^verbatim>\<open>buildURL\<close> returns it with this
  query: the keys of the three sources in sorted order, and for each key the values of the
  URL's own query, then the client's values, then the request's values, all of them, so
  nothing is removed when two sources give the same value or the same key. For a URL
  without a query, client parameters \<^verbatim>\<open>{a: 1}\<close> and request parameters \<^verbatim>\<open>{a: 2}\<close>,
  the query is \<^verbatim>\<open>a=1&a=2\<close>.
\<close>

theorem query_merge_additive:
  assumes "Parse E (substitutePathParams E c rawURL pp) = Inr u"
      and "is_map (Client.queryParams c)" and "is_map qp"
  shows "buildURL E c rawURL pp qp
           = Inr (u\<lparr>RawQuery := writeQuery
                      (pairsInOrder (ParseQuery E (RawQuery u)) (Client.queryParams c) qp)\<rparr>)
       \<and> (\<forall>k. index (mergeQuery (ParseQuery E (RawQuery u)) (Client.queryParams c) qp) k
                = index (ParseQuery E (RawQuery u)) k @ index (Client.queryParams c) k @ index qp k)
       \<and> (ParseQuery E (RawQuery u) = [] \<and> Client.queryParams c = [(''a'', [''1''])]
            \<and> qp = [(''a'', [''2''])]
          \<longrightarrow> buildURL E c rawURL pp qp = Inr (u\<lparr>RawQuery := ''a=1&a=2''\<rparr>))"
  using assms
  by (simp add: buildURL_def index_mergeQuery Values_Encode_mergeQuery a_query)

theorem query_merge_additive_witness:
  "Parse (exampleEnv [])
     (substitutePathParams (exampleEnv [])
        (exampleClient\<lparr>Client.queryParams := [(''b'', [''1'']), (''a'', [''1'', ''1''])]\<rparr>)
        ''http://example.com/users?a=0&c=3'' [])
     = Inr \<lparr>Scheme = ''http'', Host = ''example.com'', Path = ''/users'', RawQuery = ''a=0&c=3'',
            Fragment = []\<rparr>
   \<and> is_map [(''b'', [''1'']), (''a'', [''1'', ''1''])] \<and> is_map [(''a'', [''2''])]
   \<and> ParseQuery (exampleEnv []) ''a=0&c=3'' = [(''a'', [''0'']), (''c'', [''3''])]
   \<and> buildURL (exampleEnv [])
        (exampleClient\<lparr>Client.queryParams := [(''b'', [''1'']), (''a'', [''1'', ''1''])]\<rparr>)
        ''http://example.com/users?a=0&c=3'' [] [(''a'', [''2''])]
       = Inr \<lparr>Scheme = ''http'', Host = ''example.com'', Path = ''/users'',
              RawQuery = ''a=0&a=1&a=1&a=2&b=1&c=3'', Fragment = []\<rparr>
   \<and> Parse (exampleEnv [])
       (substitutePathParams (exampleEnv []) (exampleClient\<lparr>Client.queryParams := [(''a'', [''1''])]\<rparr>)
          ''http://example.com/users'' [])
       = Inr \<lparr>Scheme = ''http'', Host = ''example.com'', Path = ''/users'', RawQuery = [],
              Fragment = []\<rparr>
   \<and> ParseQuery (exampleEnv []) [] = []
   \<and> buildURL (exampleEnv []) (exampleClient\<lparr>Client.queryParams := [(''a'', [''1''])]\<rparr>)
        ''http://example.com/users'' [] [(''a'', [''2''])]
       = Inr \<lparr>Scheme = ''http'', Host = ''example.com'', Path = ''/users'',
              RawQuery = ''a=1&a=2'', Fragment = []\<rparr>"
proof -
  let ?E = "exampleEnv [] :: nat Env"
  let ?c = "exampleClient\<lparr>Client.queryParams := [(''b'', [''1'']), (''a'', [''1'', ''1''])]\<rparr>"
  let ?d = "exampleClient\<lparr>Client.queryParams := [(''a'', [''1''])]\<rparr>"
  have p: "Parse ?E (substitutePathParams ?E ?c ''http://example.com/users?a=0&c=3'' [])
     = Inr \<lparr>Scheme = ''http'', Host = ''example.com'', Path = ''/users'', RawQuery = ''a=0&c=3'',
            Fragment = []\<rparr>"
    by code_simp
  have m: "is_map (Client.queryParams ?c)" "is_map [(''a'', [''2''])]"
    by (simp_all add: is_map_def)
  have q: "ParseQuery ?E ''a=0&c=3'' = [(''a'', [''0'']), (''c'', [''3''])]" by code_simp
  have w: "writeQuery (pairsInOrder [(''a'', [''0'']), (''c'', [''3''])]
                         [(''b'', [''1'']), (''a'', [''1'', ''1''])] [(''a'', [''2''])])
           = ''a=0&a=1&a=1&a=2&b=1&c=3''"
    by code_simp
  have p': "Parse ?E (substitutePathParams ?E ?d ''http://example.com/users'' [])
     = Inr \<lparr>Scheme = ''http'', Host = ''example.com'', Path = ''/users'', RawQuery = [],
            Fragment = []\<rparr>"
    by code_simp
  have m': "is_map (Client.queryParams ?d)" by (simp add: is_map_def)
  have q': "ParseQuery ?E [] = []" by code_simp
  from query_merge_additive[OF p m] q w
  have A: "buildURL ?E ?c ''http://example.com/users?a=0&c=3'' [] [(''a'', [''2''])]
       = Inr \<lparr>Scheme = ''http'', Host = ''example.com'', Path = ''/users'',
              RawQuery = ''a=0&a=1&a=1&a=2&b=1&c=3'', Fragment = []\<rparr>"
    by simp
  from query_merge_additive[OF p' m' m(2)] q' a_query(2)
  have B: "buildURL ?E ?d ''http://example.com/users'' [] [(''a'', [''2''])]
       = Inr \<lparr>Scheme = ''http'', Host = ''example.com'', Path = ''/users'',
              RawQuery = ''a=1&a=2'', Fragment = []\<rparr>"
    by simp
  from p m q A p' q' B show ?thesis by simp
qed

text \<open>
  The claim as the specification words it puts every value of the client before every
  value of the request. \<^verbatim>\<open>url.Values.Encode\<close> writes the keys in sorted order, so this
  holds among the values of one key only: with client parameters \<^verbatim>\<open>{b: 1}\<close> and request
  parameters \<^verbatim>\<open>{a: 2}\<close> the query is \<^verbatim>\<open>a=2&b=1\<close>, the request's value first.
\<close>

theorem query_merge_counterexample:
  "buildURL (exampleEnv []) (exampleClient\<lparr>Client.queryParams := [(''b'', [''1''])]\<rparr>)
      ''http://example.com/users'' [] [(''a'', [''2''])]
     = Inr \<lparr>Scheme = ''http'', Host = ''example.com'', Path = ''/users'',
            RawQuery = ''a=2&b=1'', Fragment = []\<rparr>"
  by code_simp

section \<open>Substituting the path parameters\<close>

lemma fold_upd:
  "fold (\<lambda>(k, v) m. m(k \<mapsto> v)) xs m0 k
     = (case map_of (rev xs) k of Some v \<Rightarrow> Some v | None \<Rightarrow> m0 k)"
  by (induction xs arbitrary: m0) (auto simp: map_add_def split: option.splits)

lemma map_of_rev_distinct: "distinct (map fst xs) \<Longrightarrow> map_of (rev xs) k = map_of xs k"
proof (induction xs)
  case Nil
  then show ?case by simp
next
  case (Cons p xs)
  obtain a b where p: "p = (a, b)" by (cases p) auto
  from Cons.prems p have "map_of xs a = None"
    by (simp add: map_of_eq_None_iff)
  with Cons p show ?case
    by (auto simp: map_add_def split: option.splits)
qed

lemma allPathParams_lookup:
  assumes "is_map (Client.pathParams c)" and "is_map pp"
  shows "allPathParams c pp k
           = (case map_of pp k of Some v \<Rightarrow> Some v | None \<Rightarrow> map_of (Client.pathParams c) k)"
  using assms
  by (simp add: allPathParams_def fold_upd map_of_rev_distinct is_map_def split: option.splits)

lemma allPathParams_mem:
  "allPathParams c pp k = Some v \<Longrightarrow> (k, v) \<in> set (Client.pathParams c) \<union> set pp"
  by (auto simp: allPathParams_def fold_upd split: option.splits dest!: map_of_SomeD)

lemma HasPrefix_Cons [simp]:
  "HasPrefix (a # s) (b # pre) = (a = b \<and> HasPrefix s pre)"
  "HasPrefix s [] = True"
  "HasPrefix [] (b # pre) = False"
  by (auto simp: HasPrefix_def)

lemma placeholder_match:
  "braceFree k \<Longrightarrow> braceFree k' \<Longrightarrow> HasPrefix (k' @ CHR ''}'' # r) (k @ ''}'') = (k = k')"
proof (induction k arbitrary: k')
  case Nil
  then show ?case by (cases k') (auto simp: braceFree_def)
next
  case (Cons a k)
  then show ?case by (cases k') (auto simp: braceFree_def)
qed

lemma ReplaceAll_skip:
  "CHR ''{'' \<notin> set s \<Longrightarrow> ReplaceAll (s @ r) (CHR ''{'' # old) new = s @ ReplaceAll r (CHR ''{'' # old) new"
proof (induction s)
  case Nil
  then show ?case by simp
next
  case (Cons a s)
  then show ?case by (subst ReplaceAll.simps) auto
qed

lemma drop_placeholder: "drop (length k) (k @ r) = r"
  by simp

lemma ReplaceAll_render:
  assumes "plainTemplate segs" and "braceFree k" and "m k = Some v"
  shows "ReplaceAll (render segs) (''{'' @ k @ ''}'') v = render (map (fill m {k}) segs)"
  using assms(1)
proof (induction segs)
  case Nil
  then show ?case by (subst ReplaceAll.simps) simp
next
  case (Cons seg segs)
  then have IH: "ReplaceAll (render segs) (''{'' @ k @ ''}'') v = render (map (fill m {k}) segs)"
    and pl: "plainSegment seg"
    by (simp_all add: plainTemplate_def)
  show ?case
  proof (cases seg)
    case (Lit s)
    with pl have "CHR ''{'' \<notin> set s" by (simp add: braceFree_def)
    from ReplaceAll_skip[OF this, of "render segs" "k @ ''}''" v] IH Lit show ?thesis by simp
  next
    case (Placeholder k')
    with pl have bk': "braceFree k'" by simp
    then have nb: "CHR ''{'' \<notin> set (k' @ ''}'')" by (simp add: braceFree_def)
    show ?thesis
    proof (cases "k = k'")
      case True
      have "ReplaceAll (''{'' @ k @ ''}'' @ render segs) (''{'' @ k @ ''}'') v
            = v @ ReplaceAll (render segs) (''{'' @ k @ ''}'') v"
        using placeholder_match[OF assms(2) assms(2), of "render segs"]
        by (subst ReplaceAll.simps) simp
      with IH Placeholder True assms(3) show ?thesis by simp
    next
      case False
      have "ReplaceAll (''{'' @ k' @ ''}'' @ render segs) (''{'' @ k @ ''}'') v
            = CHR ''{'' # ReplaceAll ((k' @ ''}'') @ render segs) (''{'' @ k @ ''}'') v"
        using placeholder_match[OF assms(2) bk', of "render segs"] False
        by (subst ReplaceAll.simps) simp
      also have "\<dots> = CHR ''{'' # (k' @ ''}'') @ ReplaceAll (render segs) (''{'' @ k @ ''}'') v"
        using ReplaceAll_skip[OF nb, of "render segs" "k @ ''}''" v] by simp
      finally show ?thesis using IH Placeholder False by simp
    qed
  qed
qed


lemma plain_fill:
  "plainTemplate segs \<Longrightarrow> \<forall>k v. m k = Some v \<longrightarrow> braceFree v \<Longrightarrow>
   plainTemplate (map (fill m K) segs)"
proof (induction segs)
  case Nil
  then show ?case by (simp add: plainTemplate_def)
next
  case (Cons seg segs)
  then show ?case
    by (cases seg) (auto simp: plainTemplate_def split: option.splits)
qed

lemma fill_fill: "fill m K (fill m {k} seg) = fill m (insert k K) seg"
  by (cases seg) (auto split: option.splits)

lemma fill_None: "m k = None \<Longrightarrow> fill m {k} seg = seg"
  by (cases seg) auto

lemma replacePathParams_render:
  assumes "\<forall>k v. m k = Some v \<longrightarrow> braceFree k \<and> braceFree v"
  shows "plainTemplate segs \<Longrightarrow>
         replacePathParams m ks (render segs) = render (map (fill m (set ks)) segs)"
proof (induction ks arbitrary: segs)
  case Nil
  have "fill m {} seg = seg" for seg
    by (cases seg) auto
  then have "map (fill m {}) segs = segs"
    by (simp add: map_idI)
  then show ?case by (simp add: replacePathParams_def)
next
  case (Cons k ks)
  from assms have bv: "\<forall>k v. m k = Some v \<longrightarrow> braceFree v" by blast
  have step: "(case m k of None \<Rightarrow> render segs
                | Some v \<Rightarrow> ReplaceAll (render segs) (''{'' @ k @ ''}'') v)
              = render (map (fill m {k}) segs)"
  proof (cases "m k")
    case None
    then have "map (fill m {k}) segs = segs"
      by (simp add: fill_None map_idI)
    with None show ?thesis by simp
  next
    case (Some v)
    with assms have "braceFree k" by blast
    from ReplaceAll_render[where m=m and k=k and v=v, OF Cons.prems this Some] Some show ?thesis by simp
  qed
  have "replacePathParams m (k # ks) (render segs)
        = replacePathParams m ks (render (map (fill m {k}) segs))"
    using step by (simp add: replacePathParams_def)
  also have "\<dots> = render (map (fill m (set ks)) (map (fill m {k}) segs))"
    by (rule Cons.IH) (rule plain_fill[OF Cons.prems bv])
  finally show ?case by (simp add: fill_fill comp_def)
qed

lemma render_fill_dom:
  "set ks = dom m \<Longrightarrow> render (map (fill m (set ks)) segs) = concat (map (expand m) segs)"
proof (induction segs)
  case Nil
  then show ?case by simp
next
  case (Cons seg segs)
  then show ?case by (cases seg) (auto split: option.splits)
qed

lemma Contains_skip:
  "CHR ''{'' \<notin> set s \<Longrightarrow> Contains (s @ r) (CHR ''{'' # pat) = Contains r (CHR ''{'' # pat)"
  by (induction s) auto

lemma no_placeholder_left:
  assumes "braceFree k"
  shows "plainTemplate segs \<Longrightarrow> Placeholder k \<notin> set segs \<Longrightarrow>
         \<not> Contains (render segs) (''{'' @ k @ ''}'')"
proof (induction segs)
  case Nil
  then show ?case by simp
next
  case (Cons seg segs)
  then have IH: "\<not> Contains (render segs) (''{'' @ k @ ''}'')" and pl: "plainSegment seg"
    by (simp_all add: plainTemplate_def)
  show ?case
  proof (cases seg)
    case (Lit s)
    with pl have "CHR ''{'' \<notin> set s" by (simp add: braceFree_def)
    from Contains_skip[OF this, of "render segs" "k @ ''}''"] IH Lit show ?thesis by simp
  next
    case (Placeholder k')
    with pl have bk': "braceFree k'" by simp
    then have nb: "CHR ''{'' \<notin> set (k' @ ''}'')" by (simp add: braceFree_def)
    from Placeholder Cons.prems have ne: "k \<noteq> k'" by auto
    from placeholder_match[OF assms bk', of "render segs"] ne
      Contains_skip[OF nb, of "render segs" "k @ ''}''"] IH Placeholder
    show ?thesis by simp
  qed
qed

lemma filled_has_no_placeholder:
  "k \<in> dom m \<Longrightarrow> Placeholder k \<notin> set (map (fill m (dom m)) segs)"
proof (induction segs)
  case Nil
  then show ?case by simp
next
  case (Cons seg segs)
  then show ?case by (cases seg) (auto split: option.splits)
qed

text \<open>What \<^verbatim>\<open>url.Values.Encode\<close> writes holds no brace: \<^verbatim>\<open>url.QueryEscape\<close> escapes them.\<close>

lemma braceFree_append [simp]: "braceFree (s @ t) = (braceFree s \<and> braceFree t)"
  by (auto simp: braceFree_def)

lemma upperhex_digit: "upperhex n \<in> set ''0123456789ABCDEF''"
proof -
  have "n mod 16 < length ''0123456789ABCDEF''" by simp
  then show ?thesis unfolding upperhex_def by (rule nth_mem)
qed

lemma braceFree_escape_byte: "braceFree (escape_byte ch)"
proof -
  have h: "CHR ''{'' \<noteq> upperhex n \<and> CHR ''}'' \<noteq> upperhex n" for n
    using upperhex_digit[of n] by auto
  have u: "unreserved ch \<Longrightarrow> CHR ''{'' \<noteq> ch \<and> CHR ''}'' \<noteq> ch"
    by (auto simp: unreserved_def)
  show ?thesis
    by (simp add: escape_byte_def braceFree_def h u)
qed

lemma braceFree_QueryEscape: "braceFree (QueryEscape s)"
proof (induction s)
  case Nil
  then show ?case by (simp add: QueryEscape_def braceFree_def)
next
  case (Cons ch s)
  with braceFree_escape_byte[of ch] show ?case by (simp add: QueryEscape_def)
qed

lemma braceFree_Join:
  "\<forall>x \<in> set xs. braceFree x \<Longrightarrow> braceFree sep \<Longrightarrow> braceFree (Join xs sep)"
  by (induction xs sep rule: Join.induct) (simp_all add: braceFree_def)

lemma braceFree_Values_Encode: "braceFree (Values_Encode v)"
proof -
  have eq: "braceFree ''=''" and amp: "braceFree ''&''" by (simp_all add: braceFree_def)
  have "\<forall>x \<in> set (concat (map (\<lambda>k. map (\<lambda>x. QueryEscape k @ ''='' @ QueryEscape x) (index v k))
                                (sort (remdups (map fst v))))). braceFree x"
    using eq by (auto simp: braceFree_QueryEscape simp del: append.simps)
  then show ?thesis
    unfolding Values_Encode_def using amp by (rule braceFree_Join)
qed

text \<open>
  Claim C7, as the code has it. Let the URL, with the base URL in front when it is
  relative, be a plain template, let no key and no value of the client's and the request's
  path parameters contain a brace, and let \<^verbatim>\<open>range\<close> visit exactly the keys of the merged
  map, in any order. Then the string that \<^verbatim>\<open>buildURL\<close> hands to \<^verbatim>\<open>url.Parse\<close> is the
  template with every placeholder filled from the merged map, where a placeholder without
  a value in the map stays as it is; the merged map gives the request's value for a key the
  request has and the client's value otherwise; and for no key of the merged map does the
  string contain the placeholder of that key. What \<^verbatim>\<open>buildURL\<close> returns is what
  \<^verbatim>\<open>url.Parse\<close> makes of this string: its error, or the URL it reads from the string
  with nothing but the query replaced, by a query that holds no brace at all.
\<close>

theorem path_params_substituted:
  assumes "withBaseURL c rawURL = render segs" and "plainTemplate segs"
      and "\<forall>(k, v) \<in> set (Client.pathParams c) \<union> set pp. braceFree k \<and> braceFree v"
      and "is_map (Client.pathParams c)" and "is_map pp"
      and "set (rangeKeys E (allPathParams c pp)) = dom (allPathParams c pp)"
  shows "substitutePathParams E c rawURL pp = concat (map (expand (allPathParams c pp)) segs)
       \<and> (\<forall>k. allPathParams c pp k
                = (case map_of pp k of Some v \<Rightarrow> Some v
                   | None \<Rightarrow> map_of (Client.pathParams c) k))
       \<and> (\<forall>k \<in> dom (allPathParams c pp).
             \<not> Contains (substitutePathParams E c rawURL pp) (''{'' @ k @ ''}''))
       \<and> (\<forall>e. Parse E (substitutePathParams E c rawURL pp) = Inl e
              \<longrightarrow> buildURL E c rawURL pp qp = Inl e)
       \<and> (\<forall>u. Parse E (substitutePathParams E c rawURL pp) = Inr u
              \<longrightarrow> (\<exists>query. buildURL E c rawURL pp qp = Inr (u\<lparr>RawQuery := query\<rparr>)
                     \<and> braceFree query))"
proof -
  let ?m = "allPathParams c pp"
  have bf: "\<forall>k v. ?m k = Some v \<longrightarrow> braceFree k \<and> braceFree v"
    using assms(3) allPathParams_mem[of c pp] by blast
  have r: "substitutePathParams E c rawURL pp = render (map (fill ?m (dom ?m)) segs)"
    using replacePathParams_render[OF bf assms(2), of "rangeKeys E ?m"] assms(1,6)
    by (simp add: substitutePathParams_def Let_def)
  have e: "substitutePathParams E c rawURL pp = concat (map (expand ?m) segs)"
    using r render_fill_dom[OF assms(6), of segs] assms(6) by simp
  have l: "\<forall>k. ?m k = (case map_of pp k of Some v \<Rightarrow> Some v
                         | None \<Rightarrow> map_of (Client.pathParams c) k)"
    using allPathParams_lookup[OF assms(4,5)] by blast
  have n: "\<not> Contains (substitutePathParams E c rawURL pp) (''{'' @ k @ ''}'')"
    if k: "k \<in> dom ?m" for k
  proof -
    from k bf have "braceFree k" by blast
    moreover from bf have "plainTemplate (map (fill ?m (dom ?m)) segs)"
      by (intro plain_fill[OF assms(2)]) blast
    ultimately show ?thesis
      using no_placeholder_left[of k "map (fill ?m (dom ?m)) segs"]
        filled_has_no_placeholder[OF k, of segs] r
      by simp
  qed
  have b1: "\<forall>e. Parse E (substitutePathParams E c rawURL pp) = Inl e
              \<longrightarrow> buildURL E c rawURL pp qp = Inl e"
    by (simp add: buildURL_def)
  have b2: "\<forall>u. Parse E (substitutePathParams E c rawURL pp) = Inr u
              \<longrightarrow> (\<exists>query. buildURL E c rawURL pp qp = Inr (u\<lparr>RawQuery := query\<rparr>)
                     \<and> braceFree query)"
  proof (intro allI impI)
    fix u
    assume "Parse E (substitutePathParams E c rawURL pp) = Inr u"
    then show "\<exists>query. buildURL E c rawURL pp qp = Inr (u\<lparr>RawQuery := query\<rparr>)
                 \<and> braceFree query"
      by (intro exI[of _ "Values_Encode (mergeQuery (ParseQuery E (RawQuery u))
                                                    (Client.queryParams c) qp)"])
         (simp add: buildURL_def braceFree_Values_Encode)
  qed
  from e l n b1 b2 show ?thesis by blast
qed

theorem path_params_substituted_witness:
  "withBaseURL orgClient ''/orgs/{org}/users/{id}/{tab}''
     = render [Lit ''http://example.com/orgs/'', Placeholder ''org'', Lit ''/users/'',
               Placeholder ''id'', Lit ''/'', Placeholder ''tab'']
   \<and> plainTemplate [Lit ''http://example.com/orgs/'', Placeholder ''org'', Lit ''/users/'',
                    Placeholder ''id'', Lit ''/'', Placeholder ''tab'']
   \<and> is_map (Client.pathParams orgClient) \<and> is_map [(''id'', ''42'')]
   \<and> substitutePathParams (exampleEnv [''org'', ''id'']) orgClient
         ''/orgs/{org}/users/{id}/{tab}'' [(''id'', ''42'')]
       = ''http://example.com/orgs/acme/users/42/{tab}''
   \<and> allPathParams orgClient [(''id'', ''42'')] ''id'' = Some ''42''
   \<and> allPathParams orgClient [(''id'', ''42'')] ''org'' = Some ''acme''
   \<and> \<not> Contains (substitutePathParams (exampleEnv [''org'', ''id'']) orgClient
                     ''/orgs/{org}/users/{id}/{tab}'' [(''id'', ''42'')]) ''{id}''
   \<and> \<not> Contains (substitutePathParams (exampleEnv [''org'', ''id'']) orgClient
                     ''/orgs/{org}/users/{id}/{tab}'' [(''id'', ''42'')]) ''{org}''
   \<and> Parse (exampleEnv [''org'', ''id'']) ''http://example.com/orgs/acme/users/42/{tab}''
       = Inr \<lparr>Scheme = ''http'', Host = ''example.com'', Path = ''/orgs/acme/users/42/{tab}'',
              RawQuery = [], Fragment = []\<rparr>
   \<and> (\<exists>query. buildURL (exampleEnv [''org'', ''id'']) orgClient
                   ''/orgs/{org}/users/{id}/{tab}'' [(''id'', ''42'')] [(''page'', [''{2}''])]
                 = Inr \<lparr>Scheme = ''http'', Host = ''example.com'',
                        Path = ''/orgs/acme/users/42/{tab}'', RawQuery = query, Fragment = []\<rparr>
               \<and> braceFree query)"
proof -
  let ?segs = "[Lit ''http://example.com/orgs/'', Placeholder ''org'', Lit ''/users/'',
               Placeholder ''id'', Lit ''/'', Placeholder ''tab'']"
  let ?E = "exampleEnv [''org'', ''id'']"
  let ?pp = "[(''id'', ''42'')]"
  have h1: "withBaseURL orgClient ''/orgs/{org}/users/{id}/{tab}'' = render ?segs"
    by code_simp
  have h2: "plainTemplate ?segs" by code_simp
  have h3: "\<forall>(k, v) \<in> set (Client.pathParams orgClient) \<union> set ?pp. braceFree k \<and> braceFree v"
    by (simp add: orgClient_def braceFree_def)
  have h4: "is_map (Client.pathParams orgClient)" "is_map ?pp"
    by (simp_all add: orgClient_def is_map_def)
  have d: "dom (allPathParams orgClient ?pp) = {''id'', ''org''}"
    by (auto simp: allPathParams_def orgClient_def split: if_splits)
  have h6: "set (rangeKeys ?E (allPathParams orgClient ?pp)) = dom (allPathParams orgClient ?pp)"
    unfolding d by (auto simp: exampleEnv_def allPathParams_def orgClient_def)
  have i: "''id'' \<in> dom (allPathParams orgClient ?pp)" "''org'' \<in> dom (allPathParams orgClient ?pp)"
    unfolding d by simp_all
  have ex: "concat (map (expand (allPathParams orgClient ?pp)) ?segs)
      = ''http://example.com/orgs/acme/users/42/{tab}''"
    by (simp add: allPathParams_def orgClient_def)
  have l: "allPathParams orgClient ?pp ''id'' = Some ''42''"
      "allPathParams orgClient ?pp ''org'' = Some ''acme''"
    by (simp_all add: allPathParams_def orgClient_def)
  have pr: "Parse ?E ''http://example.com/orgs/acme/users/42/{tab}''
       = Inr \<lparr>Scheme = ''http'', Host = ''example.com'', Path = ''/orgs/acme/users/42/{tab}'',
              RawQuery = [], Fragment = []\<rparr>"
    by code_simp
  have pr': "Parse ?E (substitutePathParams ?E orgClient ''/orgs/{org}/users/{id}/{tab}'' ?pp)
       = Inr \<lparr>Scheme = ''http'', Host = ''example.com'', Path = ''/orgs/acme/users/42/{tab}'',
              RawQuery = [], Fragment = []\<rparr>"
    by code_simp
  note t = path_params_substituted[OF h1 h2 h3 h4 h6, of "[(''page'', [''{2}''])]"]
  from t have "\<forall>u. Parse ?E (substitutePathParams ?E orgClient
                                 ''/orgs/{org}/users/{id}/{tab}'' ?pp) = Inr u
              \<longrightarrow> (\<exists>query. buildURL ?E orgClient ''/orgs/{org}/users/{id}/{tab}'' ?pp
                               [(''page'', [''{2}''])] = Inr (u\<lparr>RawQuery := query\<rparr>)
                     \<and> braceFree query)"
    by blast
  with pr' obtain query where
    "buildURL ?E orgClient ''/orgs/{org}/users/{id}/{tab}'' ?pp [(''page'', [''{2}''])]
       = Inr (\<lparr>Scheme = ''http'', Host = ''example.com'', Path = ''/orgs/acme/users/42/{tab}'',
              RawQuery = [], Fragment = []\<rparr>\<lparr>RawQuery := query\<rparr>)"
    "braceFree query"
    by blast
  then have b: "\<exists>query. buildURL ?E orgClient ''/orgs/{org}/users/{id}/{tab}'' ?pp
                     [(''page'', [''{2}''])]
                 = Inr \<lparr>Scheme = ''http'', Host = ''example.com'',
                        Path = ''/orgs/acme/users/42/{tab}'', RawQuery = query, Fragment = []\<rparr>
               \<and> braceFree query"
    by (intro exI[of _ query]) simp
  from t i ex l h1 h2 h4
  have "withBaseURL orgClient ''/orgs/{org}/users/{id}/{tab}'' = render ?segs
   \<and> plainTemplate ?segs
   \<and> is_map (Client.pathParams orgClient) \<and> is_map [(''id'', ''42'')]
   \<and> substitutePathParams ?E orgClient ''/orgs/{org}/users/{id}/{tab}'' [(''id'', ''42'')]
       = ''http://example.com/orgs/acme/users/42/{tab}''
   \<and> allPathParams orgClient [(''id'', ''42'')] ''id'' = Some ''42''
   \<and> allPathParams orgClient [(''id'', ''42'')] ''org'' = Some ''acme''
   \<and> \<not> Contains (substitutePathParams ?E orgClient
                     ''/orgs/{org}/users/{id}/{tab}'' [(''id'', ''42'')]) ''{id}''
   \<and> \<not> Contains (substitutePathParams ?E orgClient
                     ''/orgs/{org}/users/{id}/{tab}'' [(''id'', ''42'')]) ''{org}''"
    by simp
  with pr b show ?thesis by blast
qed

text \<open>
  The claim as the specification words it holds for every request. A value is inserted as
  it is, so it may bring a placeholder with it: with the parameters \<^verbatim>\<open>a = {b}\<close> and
  \<^verbatim>\<open>b = x\<close>, visited in the order \<^verbatim>\<open>b\<close>, \<^verbatim>\<open>a\<close>, the URL \<^verbatim>\<open>.../{a}\<close> becomes
  \<^verbatim>\<open>.../{b}\<close>, and the path of the URL that \<^verbatim>\<open>buildURL\<close> returns is
  \<^verbatim>\<open>/{b}\<close>, which still holds the placeholder of the supplied key \<^verbatim>\<open>b\<close>. The same
  happens with nested braces in the URL, and with a key that contains braces.
\<close>

theorem path_params_counterexample:
  "buildURL (exampleEnv [''b'', ''a'']) exampleClient
       ''http://example.com/{a}'' [(''a'', ''{b}''), (''b'', ''x'')] []
     = Inr \<lparr>Scheme = ''http'', Host = ''example.com'', Path = ''/{b}'', RawQuery = [],
            Fragment = []\<rparr>
   \<and> substitutePathParams (exampleEnv [''b'', ''a'']) exampleClient
       ''http://example.com/{a}'' [(''a'', ''{b}''), (''b'', ''x'')]
     = ''http://example.com/{b}''
   \<and> allPathParams exampleClient [(''a'', ''{b}''), (''b'', ''x'')] ''b'' = Some ''x''
   \<and> Contains (substitutePathParams (exampleEnv [''b'', ''a'']) exampleClient
                 ''http://example.com/{a}'' [(''a'', ''{b}''), (''b'', ''x'')]) ''{b}''
   \<and> Contains (substitutePathParams (exampleEnv [''p1'', ''q'']) exampleClient
                 ''http://example.com/{p{q}}'' [(''p1'', ''z''), (''q'', ''1'')]) ''{p1}''
   \<and> Contains (substitutePathParams (exampleEnv [''a}x{c'']) exampleClient
                 ''http://example.com/{a}{a}x{c}{c}'' [(''a}x{c'', ''x'')]) ''{a}x{c}''"
  by code_simp

section \<open>\<^verbatim>\<open>Clone\<close> and the request's user agent\<close>



lemma extends_nth: "extends h h' \<Longrightarrow> a < length h \<Longrightarrow> h' ! a = h ! a"
  by (simp add: extends_def)

lemma extends_append [simp]: "extends h (h @ cs)"
  by (simp add: extends_def nth_append)

lemma extends_update: "extends h h' \<Longrightarrow> length h \<le> a \<Longrightarrow> extends h (h'[a := c])"
  by (simp add: extends_def)


























end
